theory Spec2Isabelle
  imports Main "HOL-Library.Sublist" "HOL-Library.Word"
begin

section \<open>COSMO apk instrumenter: the archive transformer and the manifest patcher\<close>

text \<open>
  A shallow embedding of \<^verbatim>\<open>src/apk_instrumenter.py\<close> (class \<^verbatim>\<open>ApkInstrumenter\<close>).
  The Python process is modelled by an explicit state (the file system it reads and
  writes, and the namespace registry of \<^verbatim>\<open>xml.etree.ElementTree\<close>); every exception of
  the source is a value \<open>Inl e\<close>; the library calls whose bodies are not part of the
  repository (the zip codec, the XML parser and emitter, the executable search, the
  external tools) are fields of a record \<open>world\<close>, so every theorem holds for whatever
  they compute. What the standard library does between those calls and the source
  (paths, \<^verbatim>\<open>shutil.copy2\<close>, the namespace tables of \<^verbatim>\<open>ElementTree.write\<close>) follows the
  library's code.
\<close>

subsection \<open>Strings and paths\<close>

type_synonym byte = "8 word"
type_synonym bytes = "byte list"
type_synonym path = string

text \<open>\<^verbatim>\<open>str.startswith\<close> and \<^verbatim>\<open>str.endswith\<close>.\<close>

definition startswith :: "string \<Rightarrow> string \<Rightarrow> bool" where
  "startswith s p = prefix p s"

definition endswith :: "string \<Rightarrow> string \<Rightarrow> bool" where
  "endswith s p = suffix p s"

text \<open>
  \<^verbatim>\<open>os.path.join\<close> (posixpath) on two components: an absolute second component
  replaces the first, otherwise the two are joined with exactly one separator.
\<close>

definition path_join :: "path \<Rightarrow> path \<Rightarrow> path" where
  "path_join a b =
     (if startswith b ''/'' then b
      else if a = [] \<or> endswith a ''/'' then a @ b
      else a @ ''/'' @ b)"

subsection \<open>Errors\<close>

text \<open>
  The exceptions of the source, under the names the specification gives to the failures:
  \<^item> \<open>MissingRequirement\<close>: the \<^verbatim>\<open>RuntimeError\<close> of \<^verbatim>\<open>check_requirements\<close>;
  \<^item> \<open>InvalidApplication\<close>: the \<^verbatim>\<open>FileNotFoundError\<close> and \<^verbatim>\<open>ValueError\<close> of
    \<^verbatim>\<open>parse_android_apk\<close>;
  \<^item> \<open>InvalidArchive\<close>: \<^verbatim>\<open>zipfile.BadZipFile\<close>;
  \<^item> \<open>MissingAsset\<close>: the \<^verbatim>\<open>FileNotFoundError\<close> of \<^verbatim>\<open>open\<close>, \<^verbatim>\<open>os.listdir\<close> and
    \<^verbatim>\<open>zipfile.ZipFile\<close> on a path that does not exist;
  \<^item> \<open>IOFailure\<close>: the other \<^verbatim>\<open>OSError\<close>s (\<^verbatim>\<open>IsADirectoryError\<close>, \<^verbatim>\<open>NotADirectoryError\<close>);
  \<^item> \<open>KeyError\<close>: \<^verbatim>\<open>ZipFile.read\<close> of a name the archive does not have;
  \<^item> \<open>MalformedManifest\<close>: \<^verbatim>\<open>xml.etree.ElementTree.ParseError\<close>;
  \<^item> \<open>MissingApplicationElement\<close>: the exception of \<^verbatim>\<open>ET.SubElement(None, ...)\<close>
    (\<^verbatim>\<open>TypeError\<close> in the C implementation, \<^verbatim>\<open>AttributeError\<close> in the Python one);
  \<^item> \<open>ReservedPrefix\<close>: the \<^verbatim>\<open>ValueError\<close> of \<^verbatim>\<open>ET.register_namespace\<close>;
  \<^item> \<open>MalformedName\<close>: the \<^verbatim>\<open>ValueError\<close> of the serializer on a name that opens a
    brace and never closes it;
  \<^item> \<open>ToolInvocationFailure\<close>: \<^verbatim>\<open>subprocess.CalledProcessError\<close>, with the command.
\<close>

datatype error =
    MissingRequirement string
  | InvalidApplication path
  | InvalidArchive path
  | MissingAsset path
  | IOFailure path
  | KeyError string
  | MalformedManifest path
  | MissingApplicationElement
  | ReservedPrefix string
  | MalformedName string
  | ToolInvocationFailure "string list"

subsection \<open>The file system\<close>

text \<open>
  A path holds a regular file with its bytes, or a directory with the names
  \<^verbatim>\<open>os.listdir\<close> returns for it, or nothing. A step of the program that creates a file
  leaves the listing of the directory around it as it is: the one directory the program
  lists is filled by an external tool.
\<close>

datatype node = File bytes | Dir "string list"

type_synonym filesystem = "path \<Rightarrow> node option"

definition isfile :: "filesystem \<Rightarrow> path \<Rightarrow> bool" where
  "isfile fs p = (case fs p of Some (File b) \<Rightarrow> True | _ \<Rightarrow> False)"

definition isdir :: "filesystem \<Rightarrow> path \<Rightarrow> bool" where
  "isdir fs p = (case fs p of Some (Dir ns) \<Rightarrow> True | _ \<Rightarrow> False)"

text \<open>\<^verbatim>\<open>open(p, "rb").read()\<close>.\<close>

definition read_bytes :: "filesystem \<Rightarrow> path \<Rightarrow> error + bytes" where
  "read_bytes fs p =
     (case fs p of
        None \<Rightarrow> Inl (MissingAsset p)
      | Some (Dir ns) \<Rightarrow> Inl (IOFailure p)
      | Some (File b) \<Rightarrow> Inr b)"

text \<open>\<^verbatim>\<open>os.listdir(p)\<close>.\<close>

definition listdir :: "filesystem \<Rightarrow> path \<Rightarrow> error + string list" where
  "listdir fs p =
     (case fs p of
        None \<Rightarrow> Inl (MissingAsset p)
      | Some (File b) \<Rightarrow> Inl (IOFailure p)
      | Some (Dir ns) \<Rightarrow> Inr ns)"

subsection \<open>Zip archives\<close>

text \<open>
  An archive is the list \<^verbatim>\<open>ZipFile.infolist()\<close> returns, each entry with its name and
  its content. The other fields of \<^verbatim>\<open>ZipInfo\<close> (dates, compression method, attributes)
  are carried along by \<^verbatim>\<open>writestr(entry, ...)\<close> and play no part in what follows.
\<close>

record zip_entry =
  filename :: string
  data :: bytes

type_synonym archive = "zip_entry list"

text \<open>
  \<^verbatim>\<open>ZipFile.read(name)\<close> goes through \<^verbatim>\<open>NameToInfo\<close>, a dictionary filled in the
  order of the central directory: of several entries with one name the last one is read.
\<close>

definition zip_read :: "archive \<Rightarrow> string \<Rightarrow> error + bytes" where
  "zip_read a n =
     (case find (\<lambda>e. filename e = n) (rev a) of
        None \<Rightarrow> Inl (KeyError n)
      | Some e \<Rightarrow> Inr (data e))"

subsection \<open>The world outside the program\<close>

text \<open>
  What the program calls and the repository does not contain:
  \<^item> \<open>unzip\<close>: the entries \<^verbatim>\<open>zipfile.ZipFile(path, "r")\<close> finds in the bytes of a
    file, \<open>None\<close> when they are not a zip container (\<^verbatim>\<open>BadZipFile\<close>);
  \<^item> \<open>mkzip\<close>: the bytes \<^verbatim>\<open>zipfile.ZipFile(buffer, "w")\<close> leaves in the buffer for
    the entries written to it;
  \<^item> \<open>xml_parse\<close>: the root element \<^verbatim>\<open>ET.parse\<close> builds, \<open>None\<close> on a \<^verbatim>\<open>ParseError\<close>;
  \<^item> \<open>xml_emit\<close>: the text \<^verbatim>\<open>_serialize_xml\<close> writes for a tree, given the two
    tables computed for it;
  \<^item> \<open>which\<close>: \<^verbatim>\<open>shutil.which\<close>;
  \<^item> \<open>subprocess\<close>: an external tool run with \<^verbatim>\<open>subprocess.check_output\<close>: whether
    it ran and exited with status 0, and the file system it leaves;
  \<^item> \<open>mkdtemp\<close>: the name \<^verbatim>\<open>tempfile.mkdtemp\<close> picks for the new directory, \<open>None\<close>
    when it finds no place for one.
\<close>

text \<open>
  An element of \<^verbatim>\<open>xml.etree.ElementTree\<close>: its tag, its attribute dictionary in
  insertion order, and its children. A name in a namespace is the string
  \<^verbatim>\<open>{uri}local\<close>. Text and tail are not modelled: the patch creates elements without
  any and leaves those of the document alone.
\<close>

datatype element =
  Element (tag: string) (attrib: "(string \<times> string) list") (children: "element list")

text \<open>
  The two dictionaries \<^verbatim>\<open>_namespaces\<close> computes before a tree is written: \<open>qnames\<close>
  from each tag and attribute name of the tree to the name written for it, \<open>namespaces\<close>
  from each namespace URI in use to its prefix; the emitter declares the latter on the
  root element.
\<close>

record tables =
  qnames :: "(string \<times> string) list"
  namespaces :: "(string \<times> string) list"

record world =
  unzip :: "bytes \<Rightarrow> archive option"
  mkzip :: "archive \<Rightarrow> bytes"
  xml_parse :: "bytes \<Rightarrow> element option"
  xml_emit :: "tables \<Rightarrow> element \<Rightarrow> bytes"
  which :: "string \<Rightarrow> path option"
  subprocess :: "string list \<Rightarrow> filesystem \<Rightarrow> bool \<times> filesystem"
  mkdtemp :: "filesystem \<Rightarrow> path option"

text \<open>
  The state of the Python process: the file system, and the module-level dictionary
  \<^verbatim>\<open>xml.etree.ElementTree._namespace_map\<close> (from namespace URI to prefix, in insertion
  order) that \<^verbatim>\<open>ET.register_namespace\<close> updates.
\<close>

record state =
  files :: filesystem
  namespace_map :: "(string \<times> string) list"

subsection \<open>The instrumenter object\<close>

text \<open>
  The attributes of \<^verbatim>\<open>self\<close>. \<open>script_dir\<close> is
  \<^verbatim>\<open>os.path.dirname(os.path.realpath(__file__))\<close>; the tool paths start as the class
  attributes and are replaced by \<^verbatim>\<open>check_requirements\<close>.
\<close>

record instrumenter =
  apk_path :: path
  script_dir :: path
  jacoco_cli_path :: path
  jacoco_agent_path :: path
  receiver_path :: path
  jacoco_agent_properties_path :: path
  DEX2JAR_PATH :: string
  JAVA_PATH :: string
  DX_PATH :: string
  ZIPALIGN_PATH :: string
  APKSIGNER_PATH :: string
  APKTOOL_PATH :: string

text \<open>
  \<^verbatim>\<open>__init__\<close>, with the class attributes; \<open>windows\<close> is
  \<^verbatim>\<open>platform.system() == "Windows"\<close>. The argument is the path after
  \<^verbatim>\<open>os.path.normpath\<close>.
\<close>

definition init :: "bool \<Rightarrow> path \<Rightarrow> path \<Rightarrow> instrumenter" where
  "init windows sdir apk =
     \<lparr> apk_path = apk,
       script_dir = sdir,
       jacoco_cli_path = path_join (path_join sdir ''lib'') ''jacococli.jar'',
       jacoco_agent_path = path_join (path_join sdir ''lib'') ''jacocoagent.jar'',
       receiver_path = path_join (path_join sdir ''lib'') ''receiver.jar'',
       jacoco_agent_properties_path =
         path_join (path_join sdir ''templates'') ''jacoco-agent.properties'',
       DEX2JAR_PATH = (if windows then ''d2j-dex2jar.bat'' else ''d2j-dex2jar.sh''),
       JAVA_PATH = ''java'',
       DX_PATH = ''dx'',
       ZIPALIGN_PATH = ''zipalign'',
       APKSIGNER_PATH = ''apksigner'',
       APKTOOL_PATH = ''apktool'' \<rparr>"

subsection \<open>The archive transformer: \<^verbatim>\<open>repackage_apk\<close>\<close>

text \<open>\<^verbatim>\<open>zipfile.ZipFile(p, "r")\<close>.\<close>

definition open_zip :: "world \<Rightarrow> filesystem \<Rightarrow> path \<Rightarrow> error + archive" where
  "open_zip w fs p =
     (case fs p of
        None \<Rightarrow> Inl (MissingAsset p)
      | Some (Dir ns) \<Rightarrow> Inl (IOFailure p)
      | Some (File b) \<Rightarrow>
          (case unzip w b of None \<Rightarrow> Inl (InvalidArchive p) | Some a \<Rightarrow> Inr a))"

text \<open>
  The loop over \<^verbatim>\<open>current_apk.infolist()\<close> (lines 292 to 308): \<open>cur\<close> is the archive
  being read, the second argument the entries still to visit, \<open>buf\<close> the entries written
  to the new archive so far. \<^verbatim>\<open>writestr(entry, current_apk.read(entry.filename))\<close>
  writes the entry's name with the content read under that name.
\<close>

fun copy_entries :: "archive \<Rightarrow> zip_entry list \<Rightarrow> archive \<Rightarrow> error + archive" where
  "copy_entries cur [] buf = Inr buf"
| "copy_entries cur (entry # rest) buf =
     (if startswith (filename entry) ''META-INF/'' then copy_entries cur rest buf
      else if startswith (filename entry) ''classes'' \<and> endswith (filename entry) ''.dex''
        then copy_entries cur rest buf
      else (case zip_read cur (filename entry) of
              Inl e \<Rightarrow> Inl e
            | Inr d \<Rightarrow> copy_entries cur rest (buf @ [entry\<lparr>data := d\<rparr>])))"

text \<open>
  The loop over \<^verbatim>\<open>os.listdir(instrumented_dex_path)\<close> (lines 311 to 317): each name is
  opened under the directory, read, and written to the new archive under the bare name.
\<close>

fun copy_dex :: "filesystem \<Rightarrow> path \<Rightarrow> string list \<Rightarrow> archive \<Rightarrow> error + archive" where
  "copy_dex fs d [] buf = Inr buf"
| "copy_dex fs d (instrumented_dex # rest) buf =
     (case read_bytes fs (path_join d instrumented_dex) of
        Inl e \<Rightarrow> Inl e
      | Inr b \<Rightarrow> copy_dex fs d rest (buf @ [\<lparr>filename = instrumented_dex, data = b\<rparr>]))"

text \<open>
  Lines 284 to 323: the new archive is built in \<^verbatim>\<open>repackaged_apk_buffer\<close>. The
  result is the list of entries written to the buffer, or the first exception.
\<close>

definition build_archive ::
  "world \<Rightarrow> instrumenter \<Rightarrow> path \<Rightarrow> path \<Rightarrow> filesystem \<Rightarrow> error + archive" where
  "build_archive w self target_apk_path instrumented_dex_path fs =
     (case open_zip w fs target_apk_path of
        Inl e \<Rightarrow> Inl e
      | Inr current_apk \<Rightarrow>
     (case copy_entries current_apk current_apk [] of
        Inl e \<Rightarrow> Inl e
      | Inr buf1 \<Rightarrow>
     (case listdir fs instrumented_dex_path of
        Inl e \<Rightarrow> Inl e
      | Inr names \<Rightarrow>
     (case copy_dex fs instrumented_dex_path names buf1 of
        Inl e \<Rightarrow> Inl e
      | Inr buf2 \<Rightarrow>
     (case read_bytes fs (jacoco_agent_properties_path self) of
        Inl e \<Rightarrow> Inl e
      | Inr props \<Rightarrow>
          Inr (buf2 @ [\<lparr>filename = ''jacoco-agent.properties'', data = props\<rparr>]))))))"

text \<open>
  \<^verbatim>\<open>repackage_apk\<close>: once the buffer is complete, lines 326 and 327 open the target for
  writing and write the buffer. The \<^verbatim>\<open>except\<close> clause logs and raises again.
\<close>

definition repackage_apk ::
  "world \<Rightarrow> instrumenter \<Rightarrow> path \<Rightarrow> path \<Rightarrow> state \<Rightarrow> (error + unit) \<times> state" where
  "repackage_apk w self target_apk_path instrumented_dex_path s =
     (case build_archive w self target_apk_path instrumented_dex_path (files s) of
        Inl e \<Rightarrow> (Inl e, s)
      | Inr buf \<Rightarrow>
          (Inr (), s\<lparr>files := (files s)(target_apk_path \<mapsto> File (mkzip w buf))\<rparr>))"

text \<open>
  The condition under which the loop of \<^verbatim>\<open>repackage_apk\<close> reaches its \<^verbatim>\<open>else\<close>
  branch (line 304) and copies the entry: the name passes neither of the two tests.
\<close>

definition ordinary :: "string \<Rightarrow> bool" where
  "ordinary n = (\<not> startswith n ''META-INF/'' \<and> \<not> (startswith n ''classes'' \<and> endswith n ''.dex''))"

subsection \<open>The manifest patcher: \<^verbatim>\<open>patch_manifest\<close>\<close>

definition ANDROID_NS :: string where
  "ANDROID_NS = ''http://schemas.android.com/apk/res/android''"

text \<open>
  \<^verbatim>\<open>ET.register_namespace(prefix, uri)\<close>: a prefix matching \<^verbatim>\<open>ns\d+$\<close> is refused
  (\<^verbatim>\<open>$\<close> also matches before a final newline); every entry for the URI or with the
  prefix is deleted, then the URI is bound to the prefix.
\<close>

definition is_digit :: "char \<Rightarrow> bool" where
  "is_digit c = (c \<in> set ''0123456789'')"

definition reserved_prefix :: "string \<Rightarrow> bool" where
  "reserved_prefix p =
     (let r = drop 2 p; ds = takeWhile is_digit r; rest = dropWhile is_digit r
      in take 2 p = ''ns'' \<and> ds \<noteq> [] \<and> (rest = [] \<or> rest = [CHR 0x0A]))"

definition register_namespace ::
  "string \<Rightarrow> string \<Rightarrow> (string \<times> string) list \<Rightarrow> error + (string \<times> string) list" where
  "register_namespace pfx uri nm =
     (if reserved_prefix pfx then Inl (ReservedPrefix pfx)
      else Inr (filter (\<lambda>(k, v). \<not> (k = uri \<or> v = pfx)) nm @ [(uri, pfx)]))"

text \<open>
  \<^verbatim>\<open>ET.parse(path)\<close>: the file is opened and read, then parsed.
\<close>

definition ET_parse :: "world \<Rightarrow> filesystem \<Rightarrow> path \<Rightarrow> error + element" where
  "ET_parse w fs p =
     (case read_bytes fs p of
        Inl e \<Rightarrow> Inl e
      | Inr b \<Rightarrow> (case xml_parse w b of None \<Rightarrow> Inl (MalformedManifest p) | Some root \<Rightarrow> Inr root))"

text \<open>
  \<^verbatim>\<open>elem.find('./' + t)\<close>: the first child of the element with that tag, or \<^verbatim>\<open>None\<close>.
\<close>

definition find_child :: "element \<Rightarrow> string \<Rightarrow> element option" where
  "find_child e t = find (\<lambda>c. tag c = t) (children e)"

text \<open>
  \<^verbatim>\<open>Element.set(key, value)\<close> assigns in the attribute dictionary: an existing key keeps
  its place, a new key goes last.
\<close>

fun attr_set :: "(string \<times> string) list \<Rightarrow> string \<Rightarrow> string \<Rightarrow> (string \<times> string) list" where
  "attr_set [] k v = [(k, v)]"
| "attr_set ((k', v') # rest) k v =
     (if k' = k then (k, v) # rest else (k', v') # attr_set rest k v)"

definition set_attribute :: "string \<Rightarrow> string \<Rightarrow> element \<Rightarrow> element" where
  "set_attribute k v e = Element (tag e) (attr_set (attrib e) k v) (children e)"

text \<open>
  \<^verbatim>\<open>ET.SubElement(parent, t)\<close> appends a new element, with no attribute and no child,
  to the children of the parent and returns it. The source then works on the returned
  element, which is the last child of its parent: \<open>on_last f\<close> is that update, seen from
  the parent.
\<close>

definition SubElement :: "string \<Rightarrow> element \<Rightarrow> element" where
  "SubElement t parent = Element (tag parent) (attrib parent) (children parent @ [Element t [] []])"

definition on_last :: "(element \<Rightarrow> element) \<Rightarrow> element \<Rightarrow> element" where
  "on_last f parent =
     Element (tag parent) (attrib parent)
       (case children parent of [] \<Rightarrow> [] | c # cs \<Rightarrow> butlast (c # cs) @ [f (last (c # cs))])"

text \<open>
  Lines 369 to 374, as they change the \<^verbatim>\<open>application\<close> element: \<^verbatim>\<open>receiver\<close> is its
  last child, \<^verbatim>\<open>intent_filter\<close> the last child of that, \<^verbatim>\<open>action\<close> the last child of
  that one.
\<close>

definition add_receiver :: "element \<Rightarrow> element" where
  "add_receiver application =
     (let a1 = SubElement ''receiver'' application;
          a2 = on_last (set_attribute ''android:name'' ''cosmo.receiver.EndCoverageBroadcast'') a1;
          a3 = on_last (set_attribute ''android:exported'' ''true'') a2;
          a4 = on_last (SubElement ''intent-filter'') a3;
          a5 = on_last (on_last (SubElement ''action'')) a4;
          a6 = on_last (on_last (on_last (set_attribute ''android:name'' ''intent.END_COVERAGE''))) a5
      in a6)"

text \<open>
  The element found by \<^verbatim>\<open>find\<close> is a child of the root, changed in place: in the tree
  it is the first child with the tag \<^verbatim>\<open>application\<close> that changes.
\<close>

fun update_application :: "(element \<Rightarrow> element) \<Rightarrow> element list \<Rightarrow> element list" where
  "update_application f [] = []"
| "update_application f (c # cs) =
     (if tag c = ''application'' then f c # cs else c # update_application f cs)"

text \<open>
  Lines 368 to 374 on the parsed tree. When \<^verbatim>\<open>find\<close> returns \<^verbatim>\<open>None\<close>,
  \<^verbatim>\<open>ET.SubElement(None, 'receiver')\<close> raises.
\<close>

definition patch_tree :: "element \<Rightarrow> error + element" where
  "patch_tree root =
     (case find_child root ''application'' of
        None \<Rightarrow> Inl MissingApplicationElement
      | Some application \<Rightarrow>
          Inr (Element (tag root) (attrib root) (update_application add_receiver (children root))))"

subsection \<open>Writing a tree: the namespace tables\<close>

text \<open>\<^verbatim>\<open>s.rsplit("}", 1)\<close>: the parts before and after the last closing brace.\<close>

definition rsplit_brace :: "string \<Rightarrow> (string \<times> string) option" where
  "rsplit_brace s =
     (if CHR ''}'' \<in> set s
      then Some (rev (drop 1 (dropWhile (\<lambda>c. c \<noteq> CHR ''}'') (rev s))),
                 rev (takeWhile (\<lambda>c. c \<noteq> CHR ''}'') (rev s)))
      else None)"

text \<open>\<^verbatim>\<open>"%d" % n\<close>.\<close>

definition digit_char :: "nat \<Rightarrow> char" where
  "digit_char d = ''0123456789'' ! d"

fun decimal :: "nat \<Rightarrow> string" where
  "decimal n = (if n < 10 then [digit_char n] else decimal (n div 10) @ [digit_char (n mod 10)])"

text \<open>
  \<^verbatim>\<open>add_qname\<close> inside \<^verbatim>\<open>_namespaces\<close> (no default namespace): a name in a namespace
  takes the prefix the tree already uses for the URI, else the registered one, else a
  generated \<^verbatim>\<open>ns%d\<close>; a name without a brace is written as it is.
\<close>

definition add_qname :: "(string \<times> string) list \<Rightarrow> string \<Rightarrow> tables \<Rightarrow> error + tables" where
  "add_qname nm qname tb =
     (if take 1 qname = ''{'' then
        (case rsplit_brace (drop 1 qname) of
           None \<Rightarrow> Inl (MalformedName qname)
         | Some (uri, local) \<Rightarrow>
             (case map_of (namespaces tb) uri of
                Some pfx \<Rightarrow>
                  Inr (tb\<lparr>qnames := qnames tb @
                        [(qname, if pfx \<noteq> [] then pfx @ '':'' @ local else local)]\<rparr>)
              | None \<Rightarrow>
                  (let pfx = (case map_of nm uri of
                                   Some p \<Rightarrow> p
                                 | None \<Rightarrow> ''ns'' @ decimal (length (namespaces tb)))
                   in Inr \<lparr> qnames = qnames tb @
                              [(qname, if pfx \<noteq> [] then pfx @ '':'' @ local else local)],
                            namespaces = (if pfx \<noteq> ''xml''
                                          then namespaces tb @ [(uri, pfx)]
                                          else namespaces tb) \<rparr>)))
      else Inr (tb\<lparr>qnames := qnames tb @ [(qname, qname)]\<rparr>))"

text \<open>\<^verbatim>\<open>if key not in qnames: add_qname(key)\<close>.\<close>

definition visit :: "(string \<times> string) list \<Rightarrow> string \<Rightarrow> tables \<Rightarrow> error + tables" where
  "visit nm qname tb =
     (if qname \<in> fst ` set (qnames tb) then Inr tb else add_qname nm qname tb)"

fun visit_keys :: "(string \<times> string) list \<Rightarrow> string list \<Rightarrow> tables \<Rightarrow> error + tables" where
  "visit_keys nm [] tb = Inr tb"
| "visit_keys nm (k # ks) tb =
     (case visit nm k tb of Inl e \<Rightarrow> Inl e | Inr tb1 \<Rightarrow> visit_keys nm ks tb1)"

text \<open>
  The loop of \<^verbatim>\<open>_namespaces\<close> over \<^verbatim>\<open>elem.iter()\<close>: the elements in document order,
  of each its tag and then its attribute names.
\<close>

fun collect :: "(string \<times> string) list \<Rightarrow> element \<Rightarrow> tables \<Rightarrow> error + tables"
  and collect_all :: "(string \<times> string) list \<Rightarrow> element list \<Rightarrow> tables \<Rightarrow> error + tables" where
  "collect nm (Element t as cs) tb =
     (case visit nm t tb of
        Inl e \<Rightarrow> Inl e
      | Inr tb1 \<Rightarrow>
          (case visit_keys nm (map fst as) tb1 of
             Inl e \<Rightarrow> Inl e
           | Inr tb2 \<Rightarrow> collect_all nm cs tb2))"
| "collect_all nm [] tb = Inr tb"
| "collect_all nm (c # cs) tb =
     (case collect nm c tb of Inl e \<Rightarrow> Inl e | Inr tb1 \<Rightarrow> collect_all nm cs tb1)"

definition ET_namespaces :: "(string \<times> string) list \<Rightarrow> element \<Rightarrow> error + tables" where
  "ET_namespaces nm root = collect nm root \<lparr> qnames = [], namespaces = [] \<rparr>"

text \<open>
  \<^verbatim>\<open>ElementTree.write(path)\<close>: the file is opened for writing, which empties it, then
  the tables are computed and the tree is written.
\<close>

definition ET_write :: "world \<Rightarrow> path \<Rightarrow> element \<Rightarrow> state \<Rightarrow> (error + unit) \<times> state" where
  "ET_write w p root s =
     (case ET_namespaces (namespace_map s) root of
        Inl e \<Rightarrow> (Inl e, s\<lparr>files := (files s)(p \<mapsto> File [])\<rparr>)
      | Inr tb \<Rightarrow> (Inr (), s\<lparr>files := (files s)(p \<mapsto> File (xml_emit w tb root))\<rparr>))"

text \<open>
  \<^verbatim>\<open>patch_manifest\<close>, lines 366 to 375. The \<^verbatim>\<open>except\<close> clause logs and raises again.
\<close>

definition patch_manifest :: "world \<Rightarrow> path \<Rightarrow> state \<Rightarrow> (error + unit) \<times> state" where
  "patch_manifest w manifest_path s =
     (case register_namespace ''android'' ANDROID_NS (namespace_map s) of
        Inl e \<Rightarrow> (Inl e, s)
      | Inr nm \<Rightarrow>
          (let s1 = s\<lparr>namespace_map := nm\<rparr> in
           (case ET_parse w (files s1) manifest_path of
              Inl e \<Rightarrow> (Inl e, s1)
            | Inr root \<Rightarrow>
                (case patch_tree root of
                   Inl e \<Rightarrow> (Inl e, s1)
                 | Inr root' \<Rightarrow> ET_write w manifest_path root' s1))))"

subsection \<open>The pipeline\<close>

text \<open>
  A method of the instrumenter takes the state and returns its result, a value or an
  exception, with the state it leaves. \<open>then_do\<close> is one statement after another: an
  exception of the first skips the second.
\<close>

definition then_do ::
  "(state \<Rightarrow> (error + 'a) \<times> state) \<Rightarrow> ('a \<Rightarrow> state \<Rightarrow> (error + 'b) \<times> state) \<Rightarrow>
   state \<Rightarrow> (error + 'b) \<times> state" where
  "then_do m f s = (case m s of (Inl e, s') \<Rightarrow> (Inl e, s') | (Inr x, s') \<Rightarrow> f x s')"

text \<open>\<^verbatim>\<open>os.path.basename\<close> and the first component of \<^verbatim>\<open>os.path.splitext\<close> (posixpath).\<close>

definition basename :: "path \<Rightarrow> string" where
  "basename p = rev (takeWhile (\<lambda>c. c \<noteq> CHR ''/'') (rev p))"

definition splitext_root :: "path \<Rightarrow> string" where
  "splitext_root p =
     (let name = basename p;
          stem = rev (drop 1 (dropWhile (\<lambda>c. c \<noteq> CHR ''.'') (rev name)))
      in if CHR ''.'' \<in> set name \<and> (\<exists>c\<in>set stem. c \<noteq> CHR ''.'')
         then take (length p - length name) p @ stem
         else p)"

text \<open>
  \<^verbatim>\<open>shutil.copy2(src, dst)\<close>: into the directory \<open>dst\<close> under the name of the source,
  or onto the path \<open>dst\<close>; the result is the path written. The directory written into
  exists wherever this program copies (the fresh working directory, the directory of the
  script).
\<close>

definition copy2 :: "filesystem \<Rightarrow> path \<Rightarrow> path \<Rightarrow> error + path \<times> filesystem" where
  "copy2 fs src dst =
     (let dst' = (if isdir fs dst then path_join dst (basename src) else dst) in
      (case fs src of
         None \<Rightarrow> Inl (MissingAsset src)
       | Some (Dir ns) \<Rightarrow> Inl (IOFailure src)
       | Some (File b) \<Rightarrow>
           if dst' = src then Inl (IOFailure src)
           else (case fs dst' of
                   Some (Dir ns) \<Rightarrow> Inl (IOFailure dst')
                 | _ \<Rightarrow> Inr (dst', fs(dst' \<mapsto> File b)))))"

text \<open>
  \<^verbatim>\<open>subprocess.check_output(cmd, stderr=subprocess.STDOUT)\<close> inside the
  \<^verbatim>\<open>try\<close> of a stage, whose \<^verbatim>\<open>except\<close> clauses log and raise again.
\<close>

definition check_output :: "world \<Rightarrow> string list \<Rightarrow> state \<Rightarrow> (error + unit) \<times> state" where
  "check_output w cmd s =
     (case subprocess w cmd (files s) of
        (ok, fs') \<Rightarrow>
          (if ok then Inr () else Inl (ToolInvocationFailure cmd), s\<lparr>files := fs'\<rparr>))"

definition check_requirements :: "world \<Rightarrow> instrumenter \<Rightarrow> filesystem \<Rightarrow> error + instrumenter" where
  "check_requirements w self fs =
     (if \<not> isfile fs (receiver_path self) then Inl (MissingRequirement ''receiver.jar'')
      else
        (let full_java_path = which w (JAVA_PATH self);
             full_dex2jar_path = which w (DEX2JAR_PATH self);
             full_dx_path = which w (DX_PATH self);
             full_zipalign_path = which w (ZIPALIGN_PATH self);
             full_apksigner_path = which w (APKSIGNER_PATH self);
             full_apktool_path = which w (APKTOOL_PATH self)
         in
         (case full_java_path of
            None \<Rightarrow> Inl (MissingRequirement (JAVA_PATH self))
          | Some java \<Rightarrow>
         (case full_dex2jar_path of
            None \<Rightarrow> Inl (MissingRequirement (DEX2JAR_PATH self))
          | Some dex2jar \<Rightarrow>
         (case full_dx_path of
            None \<Rightarrow> Inl (MissingRequirement (DX_PATH self))
          | Some dx \<Rightarrow>
         (case full_zipalign_path of
            None \<Rightarrow> Inl (MissingRequirement (ZIPALIGN_PATH self))
          | Some zipalign \<Rightarrow>
         (case full_apksigner_path of
            None \<Rightarrow> Inl (MissingRequirement (APKSIGNER_PATH self))
          | Some apksigner \<Rightarrow>
         (case full_apktool_path of
            None \<Rightarrow> Inl (MissingRequirement (APKTOOL_PATH self))
          | Some apktool \<Rightarrow>
              Inr (self\<lparr> JAVA_PATH := java, DEX2JAR_PATH := dex2jar, DX_PATH := dx,
                        ZIPALIGN_PATH := zipalign, APKSIGNER_PATH := apksigner,
                        APKTOOL_PATH := apktool \<rparr>)))))))))"

definition parse_android_apk :: "world \<Rightarrow> instrumenter \<Rightarrow> filesystem \<Rightarrow> error + bool" where
  "parse_android_apk w self fs =
     (if \<not> isfile fs (apk_path self) then Inl (InvalidApplication (apk_path self))
      else
        (case open_zip w fs (apk_path self) of
           Inl e \<Rightarrow> Inl e
         | Inr current_apk \<Rightarrow>
             if \<not> (\<exists>entry\<in>set current_apk. filename entry = ''AndroidManifest.xml'')
             then Inl (InvalidApplication (apk_path self))
             else Inr True))"

definition run_dex2jar ::
  "world \<Rightarrow> instrumenter \<Rightarrow> path \<Rightarrow> path \<Rightarrow> state \<Rightarrow> (error + unit) \<times> state" where
  "run_dex2jar w self target_apk_path classes_jar_path =
     check_output w
       [DEX2JAR_PATH self, ''-f'', ''-e'', ''/dev/null'', target_apk_path, ''-o'', classes_jar_path]"

definition instrument_jar ::
  "world \<Rightarrow> instrumenter \<Rightarrow> path \<Rightarrow> path \<Rightarrow> state \<Rightarrow> (error + unit) \<times> state" where
  "instrument_jar w self classes_jar_path instrumented_jacoco_path =
     check_output w
       [JAVA_PATH self, ''-jar'', jacoco_cli_path self, ''instrument'', classes_jar_path,
        ''--dest'', instrumented_jacoco_path]"

text \<open>\<^verbatim>\<open>os.makedirs\<close> on a path that is not a directory: it fails when a file is there.\<close>

definition makedirs :: "path \<Rightarrow> state \<Rightarrow> (error + unit) \<times> state" where
  "makedirs p s =
     (case files s p of
        Some n \<Rightarrow> (Inl (IOFailure p), s)
      | None \<Rightarrow> (Inr (), s\<lparr>files := (files s)(p \<mapsto> Dir [])\<rparr>))"

definition convert_to_dalvik ::
  "world \<Rightarrow> instrumenter \<Rightarrow> path \<Rightarrow> path \<Rightarrow> state \<Rightarrow> (error + unit) \<times> state" where
  "convert_to_dalvik w self instrumented_jacoco_path instrumented_dex_path =
     then_do
       (\<lambda>s. if \<not> isdir (files s) instrumented_dex_path then makedirs instrumented_dex_path s
            else (Inr (), s))
       (\<lambda>_. check_output w
          [DX_PATH self, ''-JXmx4g'', ''--dex'', ''--multi-dex'',
           ''--output='' @ instrumented_dex_path, instrumented_jacoco_path,
           jacoco_agent_path self, receiver_path self])"

definition apktool_decode ::
  "world \<Rightarrow> instrumenter \<Rightarrow> path \<Rightarrow> path \<Rightarrow> state \<Rightarrow> (error + unit) \<times> state" where
  "apktool_decode w self target_apk_path apktool_output_path =
     check_output w [APKTOOL_PATH self, ''d'', ''-s'', ''-o'', apktool_output_path, target_apk_path]"

definition apktool_build ::
  "world \<Rightarrow> instrumenter \<Rightarrow> path \<Rightarrow> path \<Rightarrow> state \<Rightarrow> (error + unit) \<times> state" where
  "apktool_build w self apktool_output_path target_apk_path =
     check_output w
       [APKTOOL_PATH self, ''b'', ''--use-aapt2'', ''-o'', target_apk_path, apktool_output_path]"

text \<open>
  \<^verbatim>\<open>align_apk\<close>: the \<^verbatim>\<open>finally\<close> clause removes the copy, if there is one, after a
  success as after an exception, and the exception goes on.
\<close>

definition align_apk :: "world \<Rightarrow> instrumenter \<Rightarrow> path \<Rightarrow> state \<Rightarrow> (error + unit) \<times> state" where
  "align_apk w self target_apk_path s =
     (case (case copy2 (files s) target_apk_path (target_apk_path @ ''.copy'') of
              Inl e \<Rightarrow> (Inl e, s)
            | Inr (apk_copy_path, fs') \<Rightarrow>
                check_output w
                  [ZIPALIGN_PATH self, ''-v'', ''-p'', ''-f'', ''4'', apk_copy_path, target_apk_path]
                  (s\<lparr>files := fs'\<rparr>)) of
        (r, s') \<Rightarrow>
          (r, if isfile (files s') (target_apk_path @ ''.copy'')
              then s'\<lparr>files := (files s')(target_apk_path @ ''.copy'' := None)\<rparr>
              else s'))"

definition sign_apk :: "world \<Rightarrow> instrumenter \<Rightarrow> path \<Rightarrow> state \<Rightarrow> (error + unit) \<times> state" where
  "sign_apk w self target_apk_path =
     check_output w
       [APKSIGNER_PATH self, ''sign'', ''--ks-pass'', ''pass:android'', ''--ks'',
        path_join (path_join (script_dir self) ''lib'') ''debug.keystore'', target_apk_path]"

definition output_dir :: "instrumenter \<Rightarrow> path" where
  "output_dir self = path_join (script_dir self) ''output_apks''"

definition copy_outputs :: "instrumenter \<Rightarrow> path \<Rightarrow> path \<Rightarrow> state \<Rightarrow> (error + unit) \<times> state" where
  "copy_outputs self target_apk_path classes_jar_path s =
     (case copy2 (files s) target_apk_path (output_dir self) of
        Inl e \<Rightarrow> (Inl e, s)
      | Inr (p1, fs1) \<Rightarrow>
          (case copy2 fs1 classes_jar_path (output_dir self) of
             Inl e \<Rightarrow> (Inl e, s\<lparr>files := fs1\<rparr>)
           | Inr (p2, fs2) \<Rightarrow> (Inr (), s\<lparr>files := fs2\<rparr>)))"

text \<open>
  \<^verbatim>\<open>instrument_apk\<close>, lines 156 to 170: the working directory is made and the package
  copied into it. The result is the working directory and the path of the copy.
\<close>

definition prepare :: "world \<Rightarrow> instrumenter \<Rightarrow> state \<Rightarrow> (error + path \<times> path) \<times> state" where
  "prepare w self s =
     (case mkdtemp w (files s) of
        None \<Rightarrow> (Inl (IOFailure ''''), s)
      | Some working_dir \<Rightarrow>
          (let s0 = s\<lparr>files := (files s)(working_dir \<mapsto> Dir [])\<rparr> in
           (case copy2 (files s0) (apk_path self)
                   (path_join working_dir (basename (apk_path self))) of
              Inl e \<Rightarrow> (Inl e, s0)
            | Inr (target_apk_path, fs1) \<Rightarrow>
                (Inr (working_dir, target_apk_path), s0\<lparr>files := fs1\<rparr>))))"

definition classes_jar :: "instrumenter \<Rightarrow> path \<Rightarrow> path" where
  "classes_jar self working_dir =
     path_join working_dir (splitext_root (basename (apk_path self)) @ ''.jar'')"

text \<open>
  Lines 172 to 180: the stages from the conversion of the bytecode to the signing, each
  one only if the one before returned.
\<close>

definition stages_2_to_10 ::
  "world \<Rightarrow> instrumenter \<Rightarrow> path \<Rightarrow> path \<Rightarrow> state \<Rightarrow> (error + unit) \<times> state" where
  "stages_2_to_10 w self working_dir target_apk_path =
     (let classes_jar_path = classes_jar self working_dir;
          instrumented_jacoco_path = path_join working_dir ''jacoco'';
          instrumented_dex_path = path_join working_dir ''dex'';
          apktool_output_path = path_join working_dir ''apktool'';
          apktool_manifest_path = path_join apktool_output_path ''AndroidManifest.xml''
      in
      then_do (run_dex2jar w self target_apk_path classes_jar_path) (\<lambda>_.
      then_do (instrument_jar w self classes_jar_path instrumented_jacoco_path) (\<lambda>_.
      then_do (convert_to_dalvik w self instrumented_jacoco_path instrumented_dex_path) (\<lambda>_.
      then_do (repackage_apk w self target_apk_path instrumented_dex_path) (\<lambda>_.
      then_do (apktool_decode w self target_apk_path apktool_output_path) (\<lambda>_.
      then_do (patch_manifest w apktool_manifest_path) (\<lambda>_.
      then_do (apktool_build w self apktool_output_path target_apk_path) (\<lambda>_.
      then_do (align_apk w self target_apk_path) (\<lambda>_.
      sign_apk w self target_apk_path)))))))))"

text \<open>\<^verbatim>\<open>instrument_apk\<close>: the stages, then line 181, the copy of the outputs.\<close>

definition instrument_apk :: "world \<Rightarrow> instrumenter \<Rightarrow> state \<Rightarrow> (error + unit) \<times> state" where
  "instrument_apk w self =
     then_do (prepare w self) (\<lambda>(working_dir, target_apk_path).
     then_do (stages_2_to_10 w self working_dir target_apk_path) (\<lambda>_.
     copy_outputs self target_apk_path (classes_jar self working_dir)))"

text \<open>
  \<^verbatim>\<open>run_instrumentation\<close>: the requirements, the check of the package, the pipeline. The
  \<^verbatim>\<open>except\<close> clause logs and raises again.
\<close>

definition run_instrumentation :: "world \<Rightarrow> instrumenter \<Rightarrow> state \<Rightarrow> (error + unit) \<times> state" where
  "run_instrumentation w self s =
     (case check_requirements w self (files s) of
        Inl e \<Rightarrow> (Inl e, s)
      | Inr self' \<Rightarrow>
          (case parse_android_apk w self' (files s) of
             Inl e \<Rightarrow> (Inl e, s)
           | Inr ok \<Rightarrow> instrument_apk w self' s))"

subsection \<open>What a step leaves alone\<close>

text \<open>
  \<open>unchanged_under d fs fs'\<close>: the two file systems hold the same at every path that
  extends \<open>d\<close>, so at \<open>d\<close> itself and at everything inside the directory \<open>d\<close>.
  \<open>keeps_under d m\<close>: the step \<open>m\<close> leaves those paths as they are, whatever it returns.
\<close>

definition unchanged_under :: "path \<Rightarrow> filesystem \<Rightarrow> filesystem \<Rightarrow> bool" where
  "unchanged_under d fs fs' = (\<forall>p. prefix d p \<longrightarrow> fs' p = fs p)"

definition keeps_under :: "path \<Rightarrow> (state \<Rightarrow> (error + 'a) \<times> state) \<Rightarrow> bool" where
  "keeps_under d m = (\<forall>s. unchanged_under d (files s) (files (snd (m s))))"

subsection \<open>The names of a tree and the namespaces they use\<close>

text \<open>
  The namespace URI of a name \<^verbatim>\<open>{uri}local\<close>, as \<^verbatim>\<open>add_qname\<close> splits it; the tags
  and attribute names of a tree in document order; whether a tree uses a namespace in
  one of its names.
\<close>

definition qname_uri :: "string \<Rightarrow> string option" where
  "qname_uri qname =
     (if take 1 qname = ''{'' then map_option fst (rsplit_brace (drop 1 qname)) else None)"

fun names_of :: "element \<Rightarrow> string list" where
  "names_of (Element t as cs) = t # map fst as @ concat (map names_of cs)"

definition uses_namespace :: "string \<Rightarrow> element \<Rightarrow> bool" where
  "uses_namespace uri e = (Some uri \<in> set (map qname_uri (names_of e)))"

text \<open>
  The state of the two tables while \<^verbatim>\<open>_namespaces\<close> runs with the vendor namespace
  registered under \<^verbatim>\<open>android\<close>: a namespace has the prefix \<^verbatim>\<open>android\<close> exactly when it
  is the vendor namespace, and once a name in the vendor namespace has been seen the
  namespace is in the table.
\<close>

definition android_bound :: "tables \<Rightarrow> bool" where
  "android_bound tb =
     ((\<forall>(u, p)\<in>set (namespaces tb). (p = ''android'') = (u = ANDROID_NS)) \<and>
      ((\<exists>q\<in>fst ` set (qnames tb). qname_uri q = Some ANDROID_NS) \<longrightarrow>
         map_of (namespaces tb) ANDROID_NS = Some ''android''))"

section \<open>A small package and its environment\<close>

definition demo_apk :: archive where
  "demo_apk =
     [\<lparr>filename = ''AndroidManifest.xml'', data = [1]\<rparr>,
      \<lparr>filename = ''classes.dex'', data = [2]\<rparr>,
      \<lparr>filename = ''META-INF/CERT.SF'', data = [3]\<rparr>,
      \<lparr>filename = ''res/layout.xml'', data = [4]\<rparr>,
      \<lparr>filename = ''classes_extra/helper.dex'', data = [5]\<rparr>]"

definition demo_out :: archive where
  "demo_out =
     [\<lparr>filename = ''AndroidManifest.xml'', data = [1]\<rparr>,
      \<lparr>filename = ''res/layout.xml'', data = [4]\<rparr>,
      \<lparr>filename = ''classes.dex'', data = [6]\<rparr>,
      \<lparr>filename = ''classes2.dex'', data = [7]\<rparr>,
      \<lparr>filename = ''jacoco-agent.properties'', data = [8]\<rparr>]"

definition demo_manifest :: element where
  "demo_manifest =
     Element ''manifest'' [(''package'', ''com.example'')]
       [Element ''uses-sdk'' [(''{http://schemas.android.com/apk/res/android}minSdkVersion'', ''21'')] [],
        Element ''application'' [(''{http://schemas.android.com/apk/res/android}label'', ''Example'')]
          [Element ''activity'' [(''{http://schemas.android.com/apk/res/android}name'', ''.Main'')] []]]"

definition demo_manifest_no_application :: element where
  "demo_manifest_no_application =
     Element ''manifest'' [(''package'', ''com.example'')]
       [Element ''uses-sdk'' [(''{http://schemas.android.com/apk/res/android}minSdkVersion'', ''21'')] []]"

definition demo_manifest_plain :: element where
  "demo_manifest_plain =
     Element ''manifest'' [(''package'', ''com.example'')] [Element ''application'' [] []]"

definition demo_world :: world where
  "demo_world =
     \<lparr> unzip = (\<lambda>b. if b = [80, 75] then Some demo_apk
                    else if b = [80, 75, 2] then Some demo_out else None),
       mkzip = (\<lambda>a. concat (map data a)),
       xml_parse = (\<lambda>b. if b = [60] then Some demo_manifest
                        else if b = [60, 33] then Some demo_manifest_no_application
                        else if b = [60, 63] then Some demo_manifest_plain else None),
       xml_emit = (\<lambda>tb e. [of_nat (length (namespaces tb)), of_nat (length (children e))]),
       which = (\<lambda>n. Some (''/usr/bin/'' @ n)),
       subprocess = (\<lambda>cmd fs. (True, fs)),
       mkdtemp = (\<lambda>fs. Some ''/tmp/tmpcosmo'') \<rparr>"

definition demo_self :: instrumenter where
  "demo_self = init False ''/cosmo'' ''/in/app.apk''"

definition demo_files :: filesystem where
  "demo_files =
     [''/work/app.apk'' \<mapsto> File [80, 75],
      ''/work/dex'' \<mapsto> Dir [''classes.dex'', ''classes2.dex''],
      ''/work/dex/classes.dex'' \<mapsto> File [6],
      ''/work/dex/classes2.dex'' \<mapsto> File [7],
      ''/cosmo/templates/jacoco-agent.properties'' \<mapsto> File [8]]"

definition demo_state :: state where
  "demo_state = \<lparr> files = demo_files, namespace_map = [] \<rparr>"

definition demo_again :: archive where
  "demo_again =
     [\<lparr>filename = ''AndroidManifest.xml'', data = [1]\<rparr>,
      \<lparr>filename = ''res/layout.xml'', data = [4]\<rparr>,
      \<lparr>filename = ''jacoco-agent.properties'', data = [8]\<rparr>,
      \<lparr>filename = ''classes.dex'', data = [6]\<rparr>,
      \<lparr>filename = ''classes2.dex'', data = [7]\<rparr>,
      \<lparr>filename = ''jacoco-agent.properties'', data = [8]\<rparr>]"

definition demo_install :: filesystem where
  "demo_install =
     [''/in/app.apk'' \<mapsto> File [80, 75],
      ''/cosmo/lib/receiver.jar'' \<mapsto> File [1],
      ''/cosmo/lib/jacocoagent.jar'' \<mapsto> File [2],
      ''/cosmo/lib/jacococli.jar'' \<mapsto> File [3],
      ''/cosmo/lib/debug.keystore'' \<mapsto> File [4],
      ''/cosmo/output_apks'' \<mapsto> Dir []]"

definition demo_start :: state where
  "demo_start = \<lparr> files = demo_install, namespace_map = [] \<rparr>"

definition demo_resolved :: instrumenter where
  "demo_resolved =
     demo_self\<lparr> JAVA_PATH := ''/usr/bin/java'', DEX2JAR_PATH := ''/usr/bin/d2j-dex2jar.sh'',
                DX_PATH := ''/usr/bin/dx'', ZIPALIGN_PATH := ''/usr/bin/zipalign'',
                APKSIGNER_PATH := ''/usr/bin/apksigner'', APKTOOL_PATH := ''/usr/bin/apktool'' \<rparr>"

definition demo_prepared :: state where
  "demo_prepared =
     \<lparr> files = demo_install(''/tmp/tmpcosmo'' \<mapsto> Dir [],
                             ''/tmp/tmpcosmo/app.apk'' \<mapsto> File [80, 75]),
       namespace_map = [] \<rparr>"

text \<open>The dictionary \<^verbatim>\<open>_namespace_map\<close> as the module defines it.\<close>

definition well_known_namespaces :: "(string \<times> string) list" where
  "well_known_namespaces =
     [(''http://www.w3.org/XML/1998/namespace'', ''xml''),
      (''http://www.w3.org/1999/xhtml'', ''html''),
      (''http://www.w3.org/1999/02/22-rdf-syntax-ns#'', ''rdf''),
      (''http://schemas.xmlsoap.org/wsdl/'', ''wsdl''),
      (''http://www.w3.org/2001/XMLSchema'', ''xs''),
      (''http://www.w3.org/2001/XMLSchema-instance'', ''xsi''),
      (''http://purl.org/dc/elements/1.1/'', ''dc'')]"

definition demo_decoded :: state where
  "demo_decoded =
     \<lparr> files = demo_files(''/work/apktool/AndroidManifest.xml'' \<mapsto> File [60]),
       namespace_map = well_known_namespaces \<rparr>"

definition demo_decoded_plain :: state where
  "demo_decoded_plain =
     \<lparr> files = demo_files(''/work/apktool/AndroidManifest.xml'' \<mapsto> File [60, 63]),
       namespace_map = well_known_namespaces \<rparr>"

section \<open>Properties of the archive transformer\<close>

subsection \<open>The two passes and the buffer\<close>

lemma find_distinct_key:
  "distinct (map f xs) \<Longrightarrow> e \<in> set xs \<Longrightarrow> find (\<lambda>x. f x = f e) xs = Some e"
  by (induction xs) (auto simp: image_iff)

lemma zip_read_distinct:
  assumes "distinct (map filename a)" "e \<in> set a"
  shows "zip_read a (filename e) = Inr (data e)"
proof -
  have "distinct (map filename (rev a))" using assms(1) by (simp add: rev_map[symmetric])
  moreover have "e \<in> set (rev a)" using assms(2) by simp
  ultimately have "find (\<lambda>x. filename x = filename e) (rev a) = Some e"
    by (rule find_distinct_key)
  then show ?thesis by (simp add: zip_read_def)
qed

lemma copy_entries_names:
  "copy_entries cur es buf = Inr out \<Longrightarrow>
     map filename out = map filename buf @ filter ordinary (map filename es)"
  by (induction es arbitrary: buf) (auto simp: ordinary_def split: if_splits sum.splits)

lemma copy_entries_distinct:
  "distinct (map filename cur) \<Longrightarrow> set es \<subseteq> set cur \<Longrightarrow>
     copy_entries cur es buf = Inr (buf @ filter (\<lambda>e. ordinary (filename e)) es)"
  by (induction es arbitrary: buf) (auto simp: ordinary_def zip_read_distinct)

lemma zip_read_member: "e \<in> set a \<Longrightarrow> \<exists>b. zip_read a (filename e) = Inr b"
  by (auto simp: zip_read_def find_None_iff split: option.splits)

lemma copy_entries_total:
  "set es \<subseteq> set cur \<Longrightarrow> \<exists>out. copy_entries cur es buf = Inr out"
proof (induction es arbitrary: buf)
  case Nil
  then show ?case by simp
next
  case (Cons e es)
  then obtain b where "zip_read cur (filename e) = Inr b"
    using zip_read_member[of e cur] by auto
  with Cons show ?case by auto
qed

lemma copy_dex_shape:
  "copy_dex fs d ns buf = Inr out \<Longrightarrow>
     \<exists>dexes. out = buf @ dexes \<and>
       list_all2 (\<lambda>n e. filename e = n \<and> read_bytes fs (path_join d n) = Inr (data e)) ns dexes"
proof (induction ns arbitrary: buf)
  case Nil
  then show ?case by simp
next
  case (Cons n ns)
  from Cons.prems obtain b where b: "read_bytes fs (path_join d n) = Inr b"
    and rest: "copy_dex fs d ns (buf @ [\<lparr>filename = n, data = b\<rparr>]) = Inr out"
    by (auto split: sum.splits)
  from Cons.IH[OF rest] obtain dexes where
    "out = (buf @ [\<lparr>filename = n, data = b\<rparr>]) @ dexes"
    "list_all2 (\<lambda>n e. filename e = n \<and> read_bytes fs (path_join d n) = Inr (data e)) ns dexes"
    by blast
  then show ?case using b
    by (intro exI[of _ "\<lparr>filename = n, data = b\<rparr> # dexes"]) simp
qed

lemma build_archive_shape:
  assumes "build_archive w self t d fs = Inr out"
  shows "\<exists>cur kept names dexes props.
     open_zip w fs t = Inr cur \<and> copy_entries cur cur [] = Inr kept \<and>
     listdir fs d = Inr names \<and>
     list_all2 (\<lambda>n e. filename e = n \<and> read_bytes fs (path_join d n) = Inr (data e)) names dexes \<and>
     read_bytes fs (jacoco_agent_properties_path self) = Inr props \<and>
     out = kept @ dexes @ [\<lparr>filename = ''jacoco-agent.properties'', data = props\<rparr>]"
proof -
  from assms obtain cur kept names buf2 props where
    1: "open_zip w fs t = Inr cur" and 2: "copy_entries cur cur [] = Inr kept"
    and 3: "listdir fs d = Inr names" and 4: "copy_dex fs d names kept = Inr buf2"
    and 5: "read_bytes fs (jacoco_agent_properties_path self) = Inr props"
    and 6: "out = buf2 @ [\<lparr>filename = ''jacoco-agent.properties'', data = props\<rparr>]"
    by (auto simp: build_archive_def split: sum.splits)
  from copy_dex_shape[OF 4] obtain dexes where
    "buf2 = kept @ dexes"
    "list_all2 (\<lambda>n e. filename e = n \<and> read_bytes fs (path_join d n) = Inr (data e)) names dexes"
    by blast
  with 1 2 3 5 6 show ?thesis by auto
qed

lemma startswith_sep: "startswith n ''META-INF/'' \<Longrightarrow> CHR ''/'' \<in> set n"
  by (auto simp: startswith_def prefix_def)

lemma list_all2_names:
  "list_all2 (\<lambda>n e. filename e = n \<and> Q n e) ns es \<Longrightarrow> map filename es = ns"
  by (induction ns es rule: list_all2_induct) auto

lemma kept_ordinary:
  "copy_entries cur es [] = Inr kept \<Longrightarrow> e \<in> set kept \<Longrightarrow> ordinary (filename e)"
proof -
  assume a: "copy_entries cur es [] = Inr kept" and e: "e \<in> set kept"
  from copy_entries_names[OF a] have "map filename kept = filter ordinary (map filename es)"
    by simp
  moreover from e have "filename e \<in> set (map filename kept)" by simp
  ultimately show ?thesis by simp
qed

lemma count_filter_ordinary:
  "ordinary n \<Longrightarrow> count_list (filter ordinary ns) n = count_list ns n"
  by (induction ns) auto

lemma build_archive_fails:
  assumes "(\<exists>b. fs t = Some (File b) \<and> unzip w b = None) \<or> fs d = None \<or>
           fs (jacoco_agent_properties_path self) = None"
  shows "\<exists>e. build_archive w self t d fs = Inl e"
  using assms
  by (auto simp: build_archive_def open_zip_def listdir_def read_bytes_def
      split: sum.splits option.splits node.splits)

subsection \<open>A run on a small package\<close>

text \<open>
  The scenario of the specification: a package with a manifest, a dex file, a signature
  file, a resource and a dex file in a subdirectory; a replacement directory with two dex
  files; the properties template.
\<close>

lemmas demo_defs = demo_apk_def demo_world_def demo_self_def demo_files_def demo_state_def
  demo_out_def init_def

lemmas eval_defs = build_archive_def open_zip_def listdir_def read_bytes_def zip_read_def
  path_join_def startswith_def endswith_def repackage_apk_def suffix_to_prefix

lemma demo_open: "open_zip demo_world demo_files ''/work/app.apk'' = Inr demo_apk"
  by (simp add: demo_defs eval_defs)

lemma demo_props: "jacoco_agent_properties_path demo_self = ''/cosmo/templates/jacoco-agent.properties''"
  by (simp add: demo_defs eval_defs)

lemma demo_copy: "copy_entries demo_apk demo_apk [] =
   Inr [\<lparr>filename = ''AndroidManifest.xml'', data = [1]\<rparr>,
      \<lparr>filename = ''res/layout.xml'', data = [4]\<rparr>]"
  by (simp add: demo_defs eval_defs)

lemma demo_build: "build_archive demo_world demo_self ''/work/app.apk'' ''/work/dex'' demo_files = Inr demo_out"
  unfolding build_archive_def demo_open demo_props
  by (simp add: demo_copy) (simp add: demo_defs eval_defs)

lemma demo_listdir: "listdir demo_files ''/work/dex'' = Inr [''classes.dex'', ''classes2.dex'']"
  by (simp add: demo_defs eval_defs)

lemma demo_kept: "take 2 demo_out = [\<lparr>filename = ''AndroidManifest.xml'', data = [1]\<rparr>,
      \<lparr>filename = ''res/layout.xml'', data = [4]\<rparr>]"
  by (simp add: demo_out_def)

subsection \<open>The claims on the archive transformer\<close>

text \<open>
  Claim C1. When the source archive has no two entries with one path, every entry of it
  whose path neither starts with \<^verbatim>\<open>META-INF/\<close> nor starts with \<^verbatim>\<open>classes\<close> and ends
  with \<^verbatim>\<open>.dex\<close> is an entry of the archive that \<^verbatim>\<open>repackage_apk\<close> builds and writes to
  the target path: the same path, the same bytes.
\<close>

theorem repackage_keeps_ordinary_entries:
  assumes "open_zip w (files s) t = Inr cur"
    and "distinct (map filename cur)"
    and "repackage_apk w self t d s = (Inr (), s')"
    and "e \<in> set cur"
    and "\<not> startswith (filename e) ''META-INF/''"
    and "\<not> (startswith (filename e) ''classes'' \<and> endswith (filename e) ''.dex'')"
  shows "\<exists>out. build_archive w self t d (files s) = Inr out \<and>
           files s' t = Some (File (mkzip w out)) \<and> e \<in> set out"
proof -
  from assms(3) obtain out where out: "build_archive w self t d (files s) = Inr out"
    and s': "s' = s\<lparr>files := (files s)(t \<mapsto> File (mkzip w out))\<rparr>"
    by (auto simp: repackage_apk_def split: sum.splits)
  from build_archive_shape[OF out] assms(1) obtain kept rest where
    kept: "copy_entries cur cur [] = Inr kept" and shape: "out = kept @ rest"
    by auto
  have "kept = filter (\<lambda>e. ordinary (filename e)) cur"
    using copy_entries_distinct[OF assms(2) subset_refl, of "[]"] kept by simp
  with assms(4,5,6) have "e \<in> set kept" by (simp add: ordinary_def)
  with shape out s' show ?thesis by simp
qed

theorem repackage_keeps_ordinary_entries_witness:
  "open_zip demo_world (files demo_state) ''/work/app.apk'' = Inr demo_apk \<and>
   distinct (map filename demo_apk) \<and>
   repackage_apk demo_world demo_self ''/work/app.apk'' ''/work/dex'' demo_state =
     (Inr (), demo_state\<lparr>files := demo_files(''/work/app.apk'' \<mapsto> File [1, 4, 6, 7, 8])\<rparr>) \<and>
   \<lparr>filename = ''res/layout.xml'', data = [4]\<rparr> \<in> set demo_apk \<and>
   (\<exists>out. build_archive demo_world demo_self ''/work/app.apk'' ''/work/dex'' (files demo_state)
            = Inr out \<and>
          \<lparr>filename = ''res/layout.xml'', data = [4]\<rparr> \<in> set out)"
proof -
  have 1: "open_zip demo_world (files demo_state) ''/work/app.apk'' = Inr demo_apk"
    by (simp add: demo_state_def demo_open)
  have 2: "distinct (map filename demo_apk)" by (simp add: demo_apk_def)
  have 3: "repackage_apk demo_world demo_self ''/work/app.apk'' ''/work/dex'' demo_state =
     (Inr (), demo_state\<lparr>files := demo_files(''/work/app.apk'' \<mapsto> File [1, 4, 6, 7, 8])\<rparr>)"
    by (simp add: repackage_apk_def demo_state_def demo_build)
       (simp add: demo_world_def demo_out_def)
  have 4: "\<lparr>filename = ''res/layout.xml'', data = [4]\<rparr> \<in> set demo_apk"
    by (simp add: demo_apk_def)
  have 5: "\<not> startswith (filename \<lparr>filename = ''res/layout.xml'', data = [4]\<rparr>) ''META-INF/''"
    by (simp add: startswith_def)
  have 6: "\<not> (startswith (filename \<lparr>filename = ''res/layout.xml'', data = [4::byte]\<rparr>) ''classes'' \<and>
        endswith (filename \<lparr>filename = ''res/layout.xml'', data = [4::byte]\<rparr>) ''.dex'')"
    by (simp add: startswith_def)
  from repackage_keeps_ordinary_entries[OF 1 2 3 4 5 6] 1 2 3 4 show ?thesis by blast
qed

text \<open>
  Claim C2. No entry of the repackaged archive has a path under \<^verbatim>\<open>META-INF/\<close>, and none
  of the entries that the pass over the source archive wrote (the first \<open>length kept\<close>
  entries of the output) has a path that starts with \<^verbatim>\<open>classes\<close> and ends with
  \<^verbatim>\<open>.dex\<close>. The names \<^verbatim>\<open>os.listdir\<close> returns are file names: they hold no separator.
\<close>

theorem repackage_drops_signature_and_dex:
  assumes "open_zip w fs t = Inr cur"
    and "copy_entries cur cur [] = Inr kept"
    and "listdir fs d = Inr names"
    and "\<forall>n\<in>set names. CHR ''/'' \<notin> set n"
    and "build_archive w self t d fs = Inr out"
  shows "(\<forall>e\<in>set out. \<not> startswith (filename e) ''META-INF/'') \<and>
         take (length kept) out = kept \<and>
         (\<forall>e\<in>set kept. \<not> startswith (filename e) ''META-INF/'' \<and>
            \<not> (startswith (filename e) ''classes'' \<and> endswith (filename e) ''.dex''))"
proof -
  from build_archive_shape[OF assms(5)] assms(1,2,3) obtain dexes props where
    names: "list_all2 (\<lambda>n e. filename e = n \<and> read_bytes fs (path_join d n) = Inr (data e)) names dexes"
    and out: "out = kept @ dexes @ [\<lparr>filename = ''jacoco-agent.properties'', data = props\<rparr>]"
    by auto
  have k: "\<forall>e\<in>set kept. ordinary (filename e)"
    using kept_ordinary[OF assms(2)] by blast
  have "map filename dexes = names" using names by (rule list_all2_names)
  then have "\<forall>e\<in>set dexes. filename e \<in> set names" by auto
  with assms(4) have dx: "\<forall>e\<in>set dexes. \<not> startswith (filename e) ''META-INF/''"
    using startswith_sep by blast
  have pr: "\<not> startswith ''jacoco-agent.properties'' ''META-INF/''"
    by (simp add: startswith_def)
  from k have k1: "\<forall>e\<in>set kept. \<not> startswith (filename e) ''META-INF/''"
    by (simp add: ordinary_def)
  have "\<forall>e\<in>set out. \<not> startswith (filename e) ''META-INF/''"
    unfolding out using k1 dx pr by auto
  moreover have "take (length kept) out = kept" unfolding out by simp
  ultimately show ?thesis using k by (simp add: ordinary_def)
qed

theorem repackage_drops_signature_and_dex_witness:
  "open_zip demo_world demo_files ''/work/app.apk'' = Inr demo_apk \<and>
   listdir demo_files ''/work/dex'' = Inr [''classes.dex'', ''classes2.dex''] \<and>
   build_archive demo_world demo_self ''/work/app.apk'' ''/work/dex'' demo_files = Inr demo_out \<and>
   \<lparr>filename = ''META-INF/CERT.SF'', data = [3]\<rparr> \<in> set demo_apk \<and>
   \<lparr>filename = ''classes.dex'', data = [2]\<rparr> \<in> set demo_apk \<and>
   list_all (\<lambda>e. \<not> startswith (filename e) ''META-INF/'') demo_out \<and>
   list_all (\<lambda>e. \<not> startswith (filename e) ''META-INF/'' \<and>
      \<not> (startswith (filename e) ''classes'' \<and> endswith (filename e) ''.dex''))
     (take 2 demo_out)"
proof -
  have 4: "\<forall>n\<in>set [''classes.dex'', ''classes2.dex'']. CHR ''/'' \<notin> set n" by simp
  have 5: "\<lparr>filename = ''META-INF/CERT.SF'', data = [3]\<rparr> \<in> set demo_apk"
    "\<lparr>filename = ''classes.dex'', data = [2]\<rparr> \<in> set demo_apk"
    by (simp_all add: demo_apk_def)
  from repackage_drops_signature_and_dex[OF demo_open demo_copy demo_listdir 4 demo_build]
  show ?thesis using demo_open demo_listdir demo_build 5
    by (simp add: demo_kept list_all_iff)
qed

text \<open>
  Claim C3, as amended. The repackaged archive is the entries written by the pass over
  the source, then one entry for each name of the replacement directory, in the order of
  the listing, named by the bare file name and holding the bytes of that file, then the
  entry \<^verbatim>\<open>jacoco-agent.properties\<close> with the bytes of the properties file. The number of
  entries named \<^verbatim>\<open>jacoco-agent.properties\<close> in the output is one more than the number of
  such entries in the source archive and such names in the replacement directory: it is
  one exactly when neither holds that name.
\<close>

theorem repackage_injects_replacements:
  assumes "open_zip w fs t = Inr cur"
    and "copy_entries cur cur [] = Inr kept"
    and "listdir fs d = Inr names"
    and "build_archive w self t d fs = Inr out"
  shows "\<exists>dexes props.
           out = kept @ dexes @ [\<lparr>filename = ''jacoco-agent.properties'', data = props\<rparr>] \<and>
           list_all2 (\<lambda>n e. filename e = n \<and> read_bytes fs (path_join d n) = Inr (data e))
             names dexes \<and>
           read_bytes fs (jacoco_agent_properties_path self) = Inr props \<and>
           count_list (map filename out) ''jacoco-agent.properties'' =
             Suc (count_list (map filename cur) ''jacoco-agent.properties'' +
                  count_list names ''jacoco-agent.properties'')"
proof -
  from build_archive_shape[OF assms(4)] assms(1,2,3) obtain dexes props where
    names: "list_all2 (\<lambda>n e. filename e = n \<and> read_bytes fs (path_join d n) = Inr (data e)) names dexes"
    and props: "read_bytes fs (jacoco_agent_properties_path self) = Inr props"
    and out: "out = kept @ dexes @ [\<lparr>filename = ''jacoco-agent.properties'', data = props\<rparr>]"
    by auto
  have o: "ordinary ''jacoco-agent.properties''"
    by (simp add: ordinary_def startswith_def)
  have "map filename kept = filter ordinary (map filename cur)"
    using copy_entries_names[OF assms(2)] by simp
  then have c1: "count_list (map filename kept) ''jacoco-agent.properties'' =
      count_list (map filename cur) ''jacoco-agent.properties''"
    using count_filter_ordinary[OF o] by simp
  have c2: "map filename dexes = names" using names by (rule list_all2_names)
  have "count_list (map filename out) ''jacoco-agent.properties'' =
      Suc (count_list (map filename cur) ''jacoco-agent.properties'' +
           count_list names ''jacoco-agent.properties'')"
    unfolding out using c1 c2 by simp
  with names props out show ?thesis by blast
qed

theorem repackage_injects_replacements_witness:
  "build_archive demo_world demo_self ''/work/app.apk'' ''/work/dex'' demo_files = Inr demo_out \<and>
   (\<exists>dexes props.
      demo_out = take 2 demo_out @ dexes @ [\<lparr>filename = ''jacoco-agent.properties'', data = props\<rparr>] \<and>
      list_all2 (\<lambda>n e. filename e = n \<and>
          read_bytes demo_files (path_join ''/work/dex'' n) = Inr (data e))
        [''classes.dex'', ''classes2.dex''] dexes) \<and>
   count_list (map filename demo_out) ''jacoco-agent.properties'' = 1"
proof -
  have c: "count_list (map filename demo_apk) ''jacoco-agent.properties'' = 0"
    by (simp add: demo_apk_def)
  from repackage_injects_replacements[OF demo_open demo_copy demo_listdir demo_build]
  show ?thesis using demo_build c by (auto simp: demo_kept)
qed

text \<open>
  Claim C3 as stated fails on an archive that already holds an entry named
  \<^verbatim>\<open>jacoco-agent.properties\<close> (a package instrumented once before): that entry is
  ordinary and is copied, and the properties entry is appended after it.
\<close>

theorem properties_entry_twice_counterexample:
  "build_archive demo_world demo_self ''/work/app.apk'' ''/work/dex''
     (demo_files(''/work/app.apk'' \<mapsto> File [80, 75, 2])) = Inr demo_again \<and>
   count_list (map filename demo_again) ''jacoco-agent.properties'' = 2"
  by (simp add: demo_defs eval_defs demo_again_def)

text \<open>
  Claim C9. \<^verbatim>\<open>repackage_apk\<close> either fails and leaves the state as it found it, or
  has built the whole archive in the buffer and writes it to the target in one step. If
  the bytes at the target are not a zip container, or the replacement directory does not
  exist, or the properties file does not exist, it fails, and the file system, the target
  path included, is unchanged.
\<close>

theorem repackage_builds_before_writing:
  "((\<exists>e. repackage_apk w self t d s = (Inl e, s)) \<or>
    (\<exists>out. build_archive w self t d (files s) = Inr out \<and>
       repackage_apk w self t d s =
         (Inr (), s\<lparr>files := (files s)(t \<mapsto> File (mkzip w out))\<rparr>))) \<and>
   ((\<exists>b. files s t = Some (File b) \<and> unzip w b = None) \<or> files s d = None \<or>
      files s (jacoco_agent_properties_path self) = None
    \<longrightarrow> (\<exists>e. repackage_apk w self t d s = (Inl e, s)))"
proof -
  have 1: "(\<exists>e. repackage_apk w self t d s = (Inl e, s)) \<or>
    (\<exists>out. build_archive w self t d (files s) = Inr out \<and>
       repackage_apk w self t d s =
         (Inr (), s\<lparr>files := (files s)(t \<mapsto> File (mkzip w out))\<rparr>))"
    by (cases "build_archive w self t d (files s)") (simp_all add: repackage_apk_def)
  have 2: "\<exists>e. repackage_apk w self t d s = (Inl e, s)"
    if "(\<exists>b. files s t = Some (File b) \<and> unzip w b = None) \<or> files s d = None \<or>
      files s (jacoco_agent_properties_path self) = None"
    using build_archive_fails[OF that] by (auto simp: repackage_apk_def)
  from 1 2 show ?thesis by blast
qed

theorem repackage_builds_before_writing_witness:
  "(\<exists>e. repackage_apk demo_world demo_self ''/work/app.apk'' ''/work/dex''
          \<lparr>files = demo_files(''/work/app.apk'' \<mapsto> File [0]), namespace_map = []\<rparr>
        = (Inl e, \<lparr>files = demo_files(''/work/app.apk'' \<mapsto> File [0]), namespace_map = []\<rparr>)) \<and>
   (\<exists>e. repackage_apk demo_world demo_self ''/work/app.apk'' ''/work/dex''
          \<lparr>files = demo_files(''/work/dex'' := None), namespace_map = []\<rparr>
        = (Inl e, \<lparr>files = demo_files(''/work/dex'' := None), namespace_map = []\<rparr>)) \<and>
   (\<exists>e. repackage_apk demo_world demo_self ''/work/app.apk'' ''/work/dex''
          \<lparr>files = demo_files(''/cosmo/templates/jacoco-agent.properties'' := None),
            namespace_map = []\<rparr>
        = (Inl e, \<lparr>files = demo_files(''/cosmo/templates/jacoco-agent.properties'' := None),
                   namespace_map = []\<rparr>))"
proof -
  have 1: "(\<exists>b. files \<lparr>files = demo_files(''/work/app.apk'' \<mapsto> File [0]), namespace_map = []\<rparr>
               ''/work/app.apk'' = Some (File b) \<and> unzip demo_world b = None) \<or>
           files \<lparr>files = demo_files(''/work/app.apk'' \<mapsto> File [0]), namespace_map = []\<rparr>
               ''/work/dex'' = None \<or>
           files \<lparr>files = demo_files(''/work/app.apk'' \<mapsto> File [0]), namespace_map = []\<rparr>
               (jacoco_agent_properties_path demo_self) = None"
    by (simp add: demo_world_def)
  have 2: "(\<exists>b. files \<lparr>files = demo_files(''/work/dex'' := None), namespace_map = []\<rparr>
               ''/work/app.apk'' = Some (File b) \<and> unzip demo_world b = None) \<or>
           files \<lparr>files = demo_files(''/work/dex'' := None), namespace_map = []\<rparr>
               ''/work/dex'' = None \<or>
           files \<lparr>files = demo_files(''/work/dex'' := None), namespace_map = []\<rparr>
               (jacoco_agent_properties_path demo_self) = None"
    by simp
  have 3: "(\<exists>b. files \<lparr>files = demo_files(''/cosmo/templates/jacoco-agent.properties'' := None),
                  namespace_map = []\<rparr> ''/work/app.apk'' = Some (File b) \<and> unzip demo_world b = None) \<or>
           files \<lparr>files = demo_files(''/cosmo/templates/jacoco-agent.properties'' := None),
                  namespace_map = []\<rparr> ''/work/dex'' = None \<or>
           files \<lparr>files = demo_files(''/cosmo/templates/jacoco-agent.properties'' := None),
                  namespace_map = []\<rparr> (jacoco_agent_properties_path demo_self) = None"
    by (simp add: demo_props)
  from repackage_builds_before_writing[THEN conjunct2, THEN mp, OF 1]
       repackage_builds_before_writing[THEN conjunct2, THEN mp, OF 2]
       repackage_builds_before_writing[THEN conjunct2, THEN mp, OF 3]
  show ?thesis by blast
qed

text \<open>
  Claim C10. The two tests of the loop read the whole path of the entry. An entry of the
  source whose path starts with \<^verbatim>\<open>classes\<close> and ends with \<^verbatim>\<open>.dex\<close> is not among the
  entries the pass over the source writes, wherever it lies; and when its path has a
  directory part, as \<^verbatim>\<open>classes_extra/helper.dex\<close> has, no entry of the repackaged
  archive bears that path (a replacement entry is named by a bare file name).
\<close>

theorem dex_pattern_on_full_path:
  assumes "open_zip w fs t = Inr cur"
    and "copy_entries cur cur [] = Inr kept"
    and "listdir fs d = Inr names"
    and "build_archive w self t d fs = Inr out"
    and "e \<in> set cur"
    and "startswith (filename e) ''classes''"
    and "endswith (filename e) ''.dex''"
  shows "filename e \<notin> filename ` set kept \<and>
         (CHR ''/'' \<in> set (filename e) \<and> (\<forall>n\<in>set names. CHR ''/'' \<notin> set n)
            \<longrightarrow> filename e \<notin> filename ` set out)"
proof -
  from build_archive_shape[OF assms(4)] assms(1,2,3) obtain dexes props where
    names: "list_all2 (\<lambda>n e. filename e = n \<and> read_bytes fs (path_join d n) = Inr (data e)) names dexes"
    and out: "out = kept @ dexes @ [\<lparr>filename = ''jacoco-agent.properties'', data = props\<rparr>]"
    by auto
  have no: "\<not> ordinary (filename e)" using assms(6,7) by (simp add: ordinary_def)
  have k: "filename e \<notin> filename ` set kept"
    using kept_ordinary[OF assms(2)] no by auto
  have dn: "filename ` set dexes = set names"
    using list_all2_names[OF names] by (metis set_map)
  have pr: "CHR ''/'' \<notin> set ''jacoco-agent.properties''" by simp
  have "filename e \<notin> filename ` set out"
    if "CHR ''/'' \<in> set (filename e)" "\<forall>n\<in>set names. CHR ''/'' \<notin> set n"
  proof -
    from that dn have "filename e \<notin> filename ` set dexes" by auto
    moreover from that(1) pr have "filename e \<noteq> ''jacoco-agent.properties''" by metis
    ultimately show ?thesis using k unfolding out by auto
  qed
  with k show ?thesis by blast
qed

theorem dex_pattern_on_full_path_witness:
  "\<lparr>filename = ''classes_extra/helper.dex'', data = [5]\<rparr> \<in> set demo_apk \<and>
   startswith ''classes_extra/helper.dex'' ''classes'' \<and>
   endswith ''classes_extra/helper.dex'' ''.dex'' \<and>
   build_archive demo_world demo_self ''/work/app.apk'' ''/work/dex'' demo_files = Inr demo_out \<and>
   ''classes_extra/helper.dex'' \<notin> filename ` set demo_out"
proof -
  have 5: "\<lparr>filename = ''classes_extra/helper.dex'', data = [5]\<rparr> \<in> set demo_apk"
    by (simp add: demo_apk_def)
  have 6: "startswith (filename \<lparr>filename = ''classes_extra/helper.dex'', data = [5::byte]\<rparr>) ''classes''"
    by (simp add: startswith_def)
  have 7: "endswith (filename \<lparr>filename = ''classes_extra/helper.dex'', data = [5::byte]\<rparr>) ''.dex''"
    by (simp add: endswith_def suffix_to_prefix)
  have 8: "CHR ''/'' \<in> set ''classes_extra/helper.dex''" by simp
  have 9: "\<forall>n\<in>set [''classes.dex'', ''classes2.dex'']. CHR ''/'' \<notin> set n" by simp
  from dex_pattern_on_full_path[OF demo_open demo_copy demo_listdir demo_build 5 6 7] 8 9
  have "''classes_extra/helper.dex'' \<notin> filename ` set demo_out" by simp
  with 5 6 7 demo_build show ?thesis by simp
qed

section \<open>Properties of the manifest patcher\<close>

lemma on_last_snoc:
  "on_last f (Element t a (cs @ [c])) = Element t a (cs @ [f c])"
  by (cases cs) (simp_all add: on_last_def)

lemma add_receiver_eq:
  "add_receiver application =
     Element (tag application) (attrib application)
       (children application @
        [Element ''receiver''
           [(''android:name'', ''cosmo.receiver.EndCoverageBroadcast''),
            (''android:exported'', ''true'')]
           [Element ''intent-filter'' []
              [Element ''action'' [(''android:name'', ''intent.END_COVERAGE'')] []]]])"
  by (simp add: add_receiver_def SubElement_def on_last_snoc set_attribute_def
      on_last_snoc[of _ _ _ "[]", simplified])

lemma update_application_split:
  "find (\<lambda>c. tag c = ''application'') cs = Some app \<Longrightarrow>
     \<exists>pre post. cs = pre @ app # post \<and> list_all (\<lambda>c. tag c \<noteq> ''application'') pre \<and>
        update_application f cs = pre @ f app # post"
proof (induction cs)
  case Nil
  then show ?case by simp
next
  case (Cons c cs)
  show ?case
  proof (cases "tag c = ''application''")
    case True
    with Cons.prems have "c = app" by simp
    with True show ?thesis by (intro exI[of _ "[]"] exI[of _ cs]) simp
  next
    case False
    with Cons.prems have "find (\<lambda>c. tag c = ''application'') cs = Some app" by simp
    from Cons.IH[OF this] obtain pre post where
      "cs = pre @ app # post" "list_all (\<lambda>c. tag c \<noteq> ''application'') pre"
      "update_application f cs = pre @ f app # post" by blast
    with False show ?thesis by (intro exI[of _ "c # pre"] exI[of _ post]) simp
  qed
qed

lemma android_not_reserved:
  "register_namespace ''android'' uri nm =
     Inr (filter (\<lambda>(k, v). \<not> (k = uri \<or> v = ''android'')) nm @ [(uri, ''android'')])"
  by (simp add: register_namespace_def reserved_prefix_def)

text \<open>
  Claim C4. When the root of the parsed manifest has a child \<^verbatim>\<open>application\<close>, the patch
  succeeds and changes the tree in one place: the first such child gains, after the
  children it had, however many, one child \<^verbatim>\<open>receiver\<close> with the attributes
  \<^verbatim>\<open>android:name = cosmo.receiver.EndCoverageBroadcast\<close> and
  \<^verbatim>\<open>android:exported = true\<close>, holding one \<^verbatim>\<open>intent-filter\<close> that holds one
  \<^verbatim>\<open>action\<close> with \<^verbatim>\<open>android:name = intent.END_COVERAGE\<close>.
\<close>

theorem patch_adds_one_receiver:
  assumes "find_child root ''application'' = Some application"
  shows "\<exists>pre post.
           children root = pre @ application # post \<and>
           list_all (\<lambda>c. tag c \<noteq> ''application'') pre \<and>
           patch_tree root =
             Inr (Element (tag root) (attrib root)
                   (pre @
                    Element (tag application) (attrib application)
                      (children application @
                       [Element ''receiver''
                          [(''android:name'', ''cosmo.receiver.EndCoverageBroadcast''),
                           (''android:exported'', ''true'')]
                          [Element ''intent-filter'' []
                             [Element ''action'' [(''android:name'', ''intent.END_COVERAGE'')] []]]])
                    # post))"
proof -
  from assms have "find (\<lambda>c. tag c = ''application'') (children root) = Some application"
    by (simp add: find_child_def)
  from update_application_split[OF this, of add_receiver] obtain pre post where
    "children root = pre @ application # post"
    "list_all (\<lambda>c. tag c \<noteq> ''application'') pre"
    "update_application add_receiver (children root) = pre @ add_receiver application # post"
    by blast
  then show ?thesis using assms
    by (intro exI[of _ pre] exI[of _ post]) (simp add: patch_tree_def add_receiver_eq)
qed

theorem patch_adds_one_receiver_witness:
  "find_child demo_manifest ''application'' =
     Some (Element ''application'' [(''{http://schemas.android.com/apk/res/android}label'', ''Example'')]
          [Element ''activity'' [(''{http://schemas.android.com/apk/res/android}name'', ''.Main'')] []]) \<and>
   patch_tree demo_manifest =
     Inr (Element ''manifest'' [(''package'', ''com.example'')]
       [Element ''uses-sdk'' [(''{http://schemas.android.com/apk/res/android}minSdkVersion'', ''21'')] [],
        Element ''application'' [(''{http://schemas.android.com/apk/res/android}label'', ''Example'')]
          [Element ''activity'' [(''{http://schemas.android.com/apk/res/android}name'', ''.Main'')] [],
           Element ''receiver''
             [(''android:name'', ''cosmo.receiver.EndCoverageBroadcast''),
              (''android:exported'', ''true'')]
             [Element ''intent-filter'' []
                [Element ''action'' [(''android:name'', ''intent.END_COVERAGE'')] []]]]])"
proof -
  have h: "find_child demo_manifest ''application'' =
     Some (Element ''application'' [(''{http://schemas.android.com/apk/res/android}label'', ''Example'')]
          [Element ''activity'' [(''{http://schemas.android.com/apk/res/android}name'', ''.Main'')] []])"
    by (simp add: demo_manifest_def find_child_def)
  from patch_adds_one_receiver[OF h] obtain pre post where
    c: "children demo_manifest = pre @ Element ''application'' [(''{http://schemas.android.com/apk/res/android}label'', ''Example'')]
          [Element ''activity'' [(''{http://schemas.android.com/apk/res/android}name'', ''.Main'')] []] # post"
    and l: "list_all (\<lambda>c. tag c \<noteq> ''application'') pre"
    and p: "patch_tree demo_manifest =
             Inr (Element (tag demo_manifest) (attrib demo_manifest)
                   (pre @
                    Element ''application'' [(''{http://schemas.android.com/apk/res/android}label'', ''Example'')]
                      ([Element ''activity'' [(''{http://schemas.android.com/apk/res/android}name'', ''.Main'')] []] @
                       [Element ''receiver''
                          [(''android:name'', ''cosmo.receiver.EndCoverageBroadcast''),
                           (''android:exported'', ''true'')]
                          [Element ''intent-filter'' []
                             [Element ''action'' [(''android:name'', ''intent.END_COVERAGE'')] []]]])
                    # post))"
    by auto
  from c l have "pre = [Element ''uses-sdk'' [(''{http://schemas.android.com/apk/res/android}minSdkVersion'', ''21'')] []] \<and> post = []"
    by (cases pre; cases "tl pre") (auto simp: demo_manifest_def)
  with p h show ?thesis by (simp add: demo_manifest_def)
qed

text \<open>
  Claim C7. When the manifest parses and its root has no child \<^verbatim>\<open>application\<close>,
  \<^verbatim>\<open>patch_manifest\<close> fails with \<open>MissingApplicationElement\<close> (the exception of
  \<^verbatim>\<open>ET.SubElement\<close> on \<^verbatim>\<open>None\<close>) and the file system is as it was: the tree is never
  written.
\<close>

theorem patch_fails_without_application:
  assumes "read_bytes (files s) p = Inr b"
    and "xml_parse w b = Some root"
    and "find_child root ''application'' = None"
  shows "fst (patch_manifest w p s) = Inl MissingApplicationElement \<and>
         files (snd (patch_manifest w p s)) = files s"
  using assms
  by (simp add: patch_manifest_def android_not_reserved ET_parse_def patch_tree_def Let_def)

theorem patch_fails_without_application_witness:
  "read_bytes (demo_files(''/work/apktool/AndroidManifest.xml'' \<mapsto> File [60, 33]))
      ''/work/apktool/AndroidManifest.xml'' = Inr [60, 33] \<and>
   xml_parse demo_world [60, 33] = Some demo_manifest_no_application \<and>
   find_child demo_manifest_no_application ''application'' = None \<and>
   fst (patch_manifest demo_world ''/work/apktool/AndroidManifest.xml''
         \<lparr>files = demo_files(''/work/apktool/AndroidManifest.xml'' \<mapsto> File [60, 33]),
          namespace_map = []\<rparr>) = Inl MissingApplicationElement \<and>
   files (snd (patch_manifest demo_world ''/work/apktool/AndroidManifest.xml''
         \<lparr>files = demo_files(''/work/apktool/AndroidManifest.xml'' \<mapsto> File [60, 33]),
          namespace_map = []\<rparr>)) = demo_files(''/work/apktool/AndroidManifest.xml'' \<mapsto> File [60, 33])"
proof -
  have 1: "read_bytes (files \<lparr>files = demo_files(''/work/apktool/AndroidManifest.xml'' \<mapsto> File [60, 33]),
          namespace_map = []\<rparr>) ''/work/apktool/AndroidManifest.xml'' = Inr [60, 33]"
    by (simp add: read_bytes_def)
  have 2: "xml_parse demo_world [60, 33] = Some demo_manifest_no_application"
    by (simp add: demo_world_def)
  have 3: "find_child demo_manifest_no_application ''application'' = None"
    by (simp add: demo_manifest_no_application_def find_child_def)
  from patch_fails_without_application[OF 1 2 3] 1 2 3 show ?thesis by simp
qed

section \<open>Properties of the pipeline\<close>

subsection \<open>Steps that leave the output directory alone\<close>

lemma unchanged_under_refl: "unchanged_under d fs fs"
  by (simp add: unchanged_under_def)

lemma unchanged_under_trans:
  "unchanged_under d fs fs' \<Longrightarrow> unchanged_under d fs' fs'' \<Longrightarrow> unchanged_under d fs fs''"
  by (simp add: unchanged_under_def)

lemma unchanged_under_upd:
  "\<not> prefix d q \<Longrightarrow> unchanged_under d fs (fs(q := x))"
  by (auto simp: unchanged_under_def)

lemma keeps_under_then_do:
  assumes "keeps_under d m" and "\<And>x. keeps_under d (f x)"
  shows "keeps_under d (then_do m f)"
proof -
  have "unchanged_under d (files s) (files (snd (then_do m f s)))" for s
  proof (cases "m s")
    case (Pair r s')
    have a: "unchanged_under d (files s) (files s')"
      using assms(1) Pair by (auto simp: keeps_under_def dest: spec[of _ s])
    show ?thesis
    proof (cases r)
      case (Inl e)
      with Pair a show ?thesis by (simp add: then_do_def)
    next
      case (Inr x)
      have "unchanged_under d (files s') (files (snd (f x s')))"
        using assms(2)[of x] by (simp add: keeps_under_def)
      with a Pair Inr show ?thesis
        by (auto simp: then_do_def intro: unchanged_under_trans)
    qed
  qed
  then show ?thesis by (simp add: keeps_under_def)
qed

lemma keeps_under_check_output:
  assumes "\<forall>cmd fs. unchanged_under d fs (snd (subprocess w cmd fs))"
  shows "keeps_under d (check_output w cmd)"
  using assms
  by (auto simp: keeps_under_def check_output_def split: prod.splits dest!: spec[of _ cmd])
     (metis snd_conv)

lemma basename_no_sep: "CHR ''/'' \<notin> set (basename p)"
  by (auto simp: basename_def dest: set_takeWhileD)

lemma prefix_path_join: "\<not> startswith b ''/'' \<Longrightarrow> prefix a (path_join a b)"
  by (simp add: path_join_def)

lemma not_abs: "CHR ''/'' \<notin> set b \<Longrightarrow> \<not> startswith b ''/''"
  by (auto simp: startswith_def prefix_def)

lemma copy2_result:
  "copy2 fs src dst = Inr (d', fs') \<Longrightarrow> prefix dst d' \<and> (\<exists>b. fs' = fs(d' \<mapsto> File b))"
  by (auto simp: copy2_def Let_def prefix_path_join not_abs basename_no_sep
      split: option.splits node.splits if_splits)

lemma keeps_under_repackage_apk:
  "\<not> prefix d t \<Longrightarrow> keeps_under d (repackage_apk w self t x)"
  by (auto simp: keeps_under_def repackage_apk_def unchanged_under_refl unchanged_under_upd
      split: sum.splits)

lemma keeps_under_patch_manifest:
  "\<not> prefix d p \<Longrightarrow> keeps_under d (patch_manifest w p)"
  by (auto simp: keeps_under_def patch_manifest_def ET_write_def Let_def
      unchanged_under_refl unchanged_under_upd split: sum.splits)

lemma keeps_under_makedirs:
  "\<not> prefix d p \<Longrightarrow> keeps_under d (makedirs p)"
  by (auto simp: keeps_under_def makedirs_def unchanged_under_refl unchanged_under_upd
      split: option.splits)

lemma keeps_under_align_apk:
  assumes "\<forall>cmd fs. unchanged_under d fs (snd (subprocess w cmd fs))"
    and "\<forall>p. prefix t p \<longrightarrow> \<not> prefix d p"
  shows "keeps_under d (align_apk w self t)"
proof -
  have c: "\<not> prefix d (t @ ''.copy'')" using assms(2) by simp
  have "unchanged_under d (files s) (files (snd (align_apk w self t s)))" for s
  proof -
    obtain r s' where inner:
      "(case copy2 (files s) t (t @ ''.copy'') of
          Inl e \<Rightarrow> (Inl e, s)
        | Inr (apk_copy_path, fs') \<Rightarrow>
            check_output w
              [ZIPALIGN_PATH self, ''-v'', ''-p'', ''-f'', ''4'', apk_copy_path, t]
              (s\<lparr>files := fs'\<rparr>)) = (r, s')"
      by (cases "(case copy2 (files s) t (t @ ''.copy'') of
          Inl e \<Rightarrow> (Inl e, s)
        | Inr (apk_copy_path, fs') \<Rightarrow>
            check_output w
              [ZIPALIGN_PATH self, ''-v'', ''-p'', ''-f'', ''4'', apk_copy_path, t]
              (s\<lparr>files := fs'\<rparr>))") auto
    have a: "unchanged_under d (files s) (files s')"
    proof (cases "copy2 (files s) t (t @ ''.copy'')")
      case (Inl e)
      with inner show ?thesis by (simp add: unchanged_under_refl)
    next
      case (Inr x)
      obtain q fs' where x: "x = (q, fs')" by (cases x)
      from copy2_result[OF Inr[unfolded x]] obtain b where
        q: "prefix (t @ ''.copy'') q" and fs': "fs' = (files s)(q \<mapsto> File b)" by blast
      from q have "prefix t q" using append_prefixD by blast
      with assms(2) have "\<not> prefix d q" by blast
      then have 1: "unchanged_under d (files s) fs'" unfolding fs' by (rule unchanged_under_upd)
      have "keeps_under d (check_output w
                 [ZIPALIGN_PATH self, ''-v'', ''-p'', ''-f'', ''4'', q, t])"
        by (rule keeps_under_check_output[OF assms(1)])
      then have "unchanged_under d (files (s\<lparr>files := fs'\<rparr>))
              (files (snd (check_output w
                 [ZIPALIGN_PATH self, ''-v'', ''-p'', ''-f'', ''4'', q, t] (s\<lparr>files := fs'\<rparr>))))"
        unfolding keeps_under_def by blast
      with inner Inr x have 2: "unchanged_under d fs' (files s')" by simp
      from 1 2 show ?thesis by (rule unchanged_under_trans)
    qed
    have "snd (align_apk w self t s) =
        (if isfile (files s') (t @ ''.copy'')
         then s'\<lparr>files := (files s')(t @ ''.copy'' := None)\<rparr> else s')"
      using inner by (simp add: align_apk_def)
    moreover have "unchanged_under d (files s') ((files s')(t @ ''.copy'' := None))"
      using c by (rule unchanged_under_upd)
    ultimately show ?thesis
      using a by (auto intro: unchanged_under_trans unchanged_under_refl)
  qed
  then show ?thesis by (simp add: keeps_under_def)
qed

lemma keeps_under_convert_to_dalvik:
  assumes "\<forall>cmd fs. unchanged_under d fs (snd (subprocess w cmd fs))"
    and "\<not> prefix d x"
  shows "keeps_under d (convert_to_dalvik w self j x)"
  unfolding convert_to_dalvik_def
proof (rule keeps_under_then_do)
  show "keeps_under d (\<lambda>s. if \<not> isdir (files s) x then makedirs x s else (Inr (), s))"
    using keeps_under_makedirs[OF assms(2)]
    by (auto simp: keeps_under_def unchanged_under_refl)
next
  fix u :: unit
  show "keeps_under d (check_output w
          [DX_PATH self, ''-JXmx4g'', ''--dex'', ''--multi-dex'', ''--output='' @ x, j,
           jacoco_agent_path self, receiver_path self])"
    by (rule keeps_under_check_output[OF assms(1)])
qed

lemma keeps_under_stages:
  assumes tools: "\<forall>cmd fs. unchanged_under d fs (snd (subprocess w cmd fs))"
    and apart: "\<forall>p. prefix wd p \<longrightarrow> \<not> prefix d p"
    and target: "prefix wd t"
  shows "keeps_under d (stages_2_to_10 w self wd t)"
proof -
  have j: "\<And>b. \<not> startswith b ''/'' \<Longrightarrow> \<not> prefix d (path_join wd b)"
    using apart prefix_path_join by blast
  have t: "\<forall>p. prefix t p \<longrightarrow> \<not> prefix d p"
    using apart target prefix_order.trans by blast
  have dex: "\<not> prefix d (path_join wd ''dex'')"
    by (rule j) (simp add: startswith_def)
  have "prefix wd (path_join wd ''apktool'')"
    by (rule prefix_path_join) (simp add: startswith_def)
  moreover have "prefix (path_join wd ''apktool'')
      (path_join (path_join wd ''apktool'') ''AndroidManifest.xml'')"
    by (rule prefix_path_join) (simp add: startswith_def)
  ultimately have man: "\<not> prefix d (path_join (path_join wd ''apktool'') ''AndroidManifest.xml'')"
    using apart prefix_order.trans by blast
  have tt: "\<not> prefix d t" using t by blast
  show ?thesis
    unfolding stages_2_to_10_def Let_def run_dex2jar_def instrument_jar_def apktool_decode_def
      apktool_build_def sign_apk_def
    by (intro keeps_under_then_do keeps_under_check_output[OF tools]
        keeps_under_convert_to_dalvik[OF tools dex] keeps_under_repackage_apk[OF tt]
        keeps_under_patch_manifest[OF man] keeps_under_align_apk[OF tools t])
qed

lemma prepare_result:
  assumes "prepare w self s = (Inr (wd, t), s1)"
    and "\<forall>p. prefix wd p \<longrightarrow> \<not> prefix d p"
  shows "prefix wd t \<and> unchanged_under d (files s) (files s1)"
proof -
  from assms(1) obtain fs1 where
    m: "mkdtemp w (files s) = Some wd"
    and c: "copy2 ((files s)(wd \<mapsto> Dir [])) (apk_path self)
              (path_join wd (basename (apk_path self))) = Inr (t, fs1)"
    and s1: "s1 = s\<lparr>files := fs1\<rparr>"
    by (auto simp: prepare_def Let_def split: option.splits sum.splits)
  from copy2_result[OF c] obtain b where
    p: "prefix (path_join wd (basename (apk_path self))) t"
    and fs1: "fs1 = ((files s)(wd \<mapsto> Dir []))(t \<mapsto> File b)" by blast
  have "prefix wd (path_join wd (basename (apk_path self)))"
    by (rule prefix_path_join) (rule not_abs, rule basename_no_sep)
  with p have pt: "prefix wd t" using prefix_order.trans by blast
  have "\<not> prefix d wd" "\<not> prefix d t" using assms(2) pt by auto
  then have "unchanged_under d (files s) fs1"
    unfolding fs1 by (auto simp: unchanged_under_def)
  with pt s1 show ?thesis by simp
qed

subsection \<open>A run without the properties template\<close>

lemmas pipeline_defs = prepare_def copy2_def isdir_def isfile_def basename_def Let_def
  path_join_def startswith_def endswith_def suffix_to_prefix then_do_def check_output_def
  run_dex2jar_def instrument_jar_def convert_to_dalvik_def makedirs_def classes_jar_def
  splitext_root_def

lemma demo_prepare:
  "prepare demo_world demo_resolved demo_start =
     (Inr (''/tmp/tmpcosmo'', ''/tmp/tmpcosmo/app.apk''), demo_prepared)"
  by (simp add: pipeline_defs demo_world_def demo_resolved_def demo_self_def init_def
      demo_start_def demo_prepared_def demo_install_def)

lemma demo_requirements:
  "check_requirements demo_world demo_self demo_install = Inr demo_resolved"
  by (simp add: check_requirements_def demo_world_def demo_resolved_def demo_self_def init_def
      demo_install_def isfile_def path_join_def startswith_def endswith_def suffix_to_prefix)

lemma demo_parse:
  "parse_android_apk demo_world demo_resolved demo_install = Inr True"
  by (simp add: parse_android_apk_def open_zip_def demo_world_def demo_resolved_def
      demo_self_def init_def demo_install_def isfile_def demo_apk_def)

lemma demo_stage5:
  "repackage_apk demo_world demo_resolved ''/tmp/tmpcosmo/app.apk'' ''/tmp/tmpcosmo/dex''
     (demo_prepared\<lparr>files := (files demo_prepared)(''/tmp/tmpcosmo/dex'' \<mapsto> Dir [])\<rparr>) =
   (Inl (MissingAsset ''/cosmo/templates/jacoco-agent.properties''),
    demo_prepared\<lparr>files := (files demo_prepared)(''/tmp/tmpcosmo/dex'' \<mapsto> Dir [])\<rparr>)"
  by (simp add: repackage_apk_def build_archive_def open_zip_def listdir_def read_bytes_def
      zip_read_def demo_world_def demo_resolved_def demo_self_def init_def demo_prepared_def
      demo_install_def demo_apk_def path_join_def startswith_def endswith_def suffix_to_prefix)

lemma demo_stages:
  "stages_2_to_10 demo_world demo_resolved ''/tmp/tmpcosmo'' ''/tmp/tmpcosmo/app.apk'' demo_prepared =
   (Inl (MissingAsset ''/cosmo/templates/jacoco-agent.properties''),
    demo_prepared\<lparr>files := (files demo_prepared)(''/tmp/tmpcosmo/dex'' \<mapsto> Dir [])\<rparr>)"
proof -
  have sub: "\<And>cmd s. check_output demo_world cmd s = (Inr (), s)"
    by (simp add: check_output_def demo_world_def)
  have d: "path_join ''/tmp/tmpcosmo'' ''dex'' = ''/tmp/tmpcosmo/dex''"
    by (simp add: path_join_def startswith_def endswith_def suffix_to_prefix)
  have nd: "\<not> isdir (files demo_prepared) ''/tmp/tmpcosmo/dex''"
    by (simp add: isdir_def demo_prepared_def demo_install_def)
  have mk: "makedirs ''/tmp/tmpcosmo/dex'' demo_prepared =
      (Inr (), demo_prepared\<lparr>files := (files demo_prepared)(''/tmp/tmpcosmo/dex'' \<mapsto> Dir [])\<rparr>)"
    by (simp add: makedirs_def demo_prepared_def demo_install_def)
  show ?thesis
    unfolding stages_2_to_10_def Let_def d run_dex2jar_def instrument_jar_def convert_to_dalvik_def
    by (simp add: then_do_def sub nd mk demo_stage5)
qed

subsection \<open>The claims on the pipeline\<close>

text \<open>
  Claim C5. When one of the stages from the conversion of the bytecode to the signing
  fails, \<^verbatim>\<open>instrument_apk\<close> ends there with that error and in the state that stage left:
  \<^verbatim>\<open>copy_outputs\<close> is not reached. If moreover the external tools leave the output
  directory alone and the working directory lies apart from it (neither path extends
  the other), every path of the output directory holds what it held before the run.
\<close>

theorem failed_stage_writes_no_output:
  assumes "prepare w self s = (Inr (working_dir, target_apk_path), s1)"
    and "fst (stages_2_to_10 w self working_dir target_apk_path s1) = Inl e"
  shows "instrument_apk w self s = stages_2_to_10 w self working_dir target_apk_path s1 \<and>
         fst (instrument_apk w self s) = Inl e \<and>
         ((\<forall>cmd fs. unchanged_under (output_dir self) fs (snd (subprocess w cmd fs))) \<and>
          \<not> prefix (output_dir self) working_dir \<and> \<not> prefix working_dir (output_dir self)
          \<longrightarrow> unchanged_under (output_dir self) (files s)
                (files (snd (instrument_apk w self s))))"
proof -
  obtain s' where st: "stages_2_to_10 w self working_dir target_apk_path s1 = (Inl e, s')"
    using assms(2) by (cases "stages_2_to_10 w self working_dir target_apk_path s1") auto
  have eq: "instrument_apk w self s = stages_2_to_10 w self working_dir target_apk_path s1"
    using assms(1) st by (simp add: instrument_apk_def then_do_def)
  have "unchanged_under (output_dir self) (files s) (files (snd (instrument_apk w self s)))"
    if tools: "\<forall>cmd fs. unchanged_under (output_dir self) fs (snd (subprocess w cmd fs))"
      and a1: "\<not> prefix (output_dir self) working_dir"
      and a2: "\<not> prefix working_dir (output_dir self)"
  proof -
    have apart: "\<forall>p. prefix working_dir p \<longrightarrow> \<not> prefix (output_dir self) p"
      using a1 a2 prefix_same_cases by blast
    from prepare_result[OF assms(1) apart] have
      t: "prefix working_dir target_apk_path"
      and u1: "unchanged_under (output_dir self) (files s) (files s1)" by auto
    have "unchanged_under (output_dir self) (files s1)
            (files (snd (stages_2_to_10 w self working_dir target_apk_path s1)))"
      using keeps_under_stages[OF tools apart t] by (simp add: keeps_under_def)
    with u1 eq show ?thesis by (auto intro: unchanged_under_trans)
  qed
  with eq assms(2) show ?thesis by simp
qed

theorem failed_stage_writes_no_output_witness:
  "prepare demo_world demo_resolved demo_start =
     (Inr (''/tmp/tmpcosmo'', ''/tmp/tmpcosmo/app.apk''), demo_prepared) \<and>
   output_dir demo_resolved = ''/cosmo/output_apks'' \<and>
   fst (instrument_apk demo_world demo_resolved demo_start) =
     Inl (MissingAsset ''/cosmo/templates/jacoco-agent.properties'') \<and>
   files (snd (instrument_apk demo_world demo_resolved demo_start)) ''/cosmo/output_apks'' =
     Some (Dir []) \<and>
   files (snd (instrument_apk demo_world demo_resolved demo_start)) ''/cosmo/output_apks/app.apk'' =
     None \<and>
   files (snd (instrument_apk demo_world demo_resolved demo_start)) ''/cosmo/output_apks/app.jar'' =
     None"
proof -
  have o: "output_dir demo_resolved = ''/cosmo/output_apks''"
    by (simp add: output_dir_def demo_resolved_def demo_self_def init_def path_join_def
        startswith_def endswith_def suffix_to_prefix)
  have 1: "\<forall>cmd fs. unchanged_under (output_dir demo_resolved) fs
             (snd (subprocess demo_world cmd fs))"
    by (simp add: demo_world_def unchanged_under_def)
  have 3: "\<not> prefix (output_dir demo_resolved) ''/tmp/tmpcosmo''" unfolding o by simp
  have 4: "\<not> prefix ''/tmp/tmpcosmo'' (output_dir demo_resolved)" unfolding o by simp
  have 5: "fst (stages_2_to_10 demo_world demo_resolved ''/tmp/tmpcosmo''
                 ''/tmp/tmpcosmo/app.apk'' demo_prepared) =
           Inl (MissingAsset ''/cosmo/templates/jacoco-agent.properties'')"
    by (simp add: demo_stages)
  from failed_stage_writes_no_output[OF demo_prepare 5] 1 3 4 have
    r: "fst (instrument_apk demo_world demo_resolved demo_start) =
          Inl (MissingAsset ''/cosmo/templates/jacoco-agent.properties'')"
    and u: "unchanged_under ''/cosmo/output_apks'' (files demo_start)
              (files (snd (instrument_apk demo_world demo_resolved demo_start)))"
    unfolding o by blast+
  have a: "files (snd (instrument_apk demo_world demo_resolved demo_start)) ''/cosmo/output_apks''
             = files demo_start ''/cosmo/output_apks''"
    using u unfolding unchanged_under_def by (elim allE[of _ "''/cosmo/output_apks''"]) simp
  have b: "files (snd (instrument_apk demo_world demo_resolved demo_start))
             ''/cosmo/output_apks/app.apk'' = files demo_start ''/cosmo/output_apks/app.apk''"
    using u unfolding unchanged_under_def
    by (elim allE[of _ "''/cosmo/output_apks/app.apk''"]) simp
  have c: "files (snd (instrument_apk demo_world demo_resolved demo_start))
             ''/cosmo/output_apks/app.jar'' = files demo_start ''/cosmo/output_apks/app.jar''"
    using u unfolding unchanged_under_def
    by (elim allE[of _ "''/cosmo/output_apks/app.jar''"]) simp
  show ?thesis using demo_prepare o r a b c
    by (simp add: demo_start_def demo_install_def)
qed

lemma check_requirements_fails:
  assumes "\<not> isfile fs (receiver_path self) \<or> which w (JAVA_PATH self) = None \<or>
           which w (DEX2JAR_PATH self) = None \<or> which w (DX_PATH self) = None \<or>
           which w (ZIPALIGN_PATH self) = None \<or> which w (APKSIGNER_PATH self) = None \<or>
           which w (APKTOOL_PATH self) = None"
  shows "\<exists>m. check_requirements w self fs = Inl (MissingRequirement m)"
  using assms by (auto simp: check_requirements_def Let_def split: option.splits)

lemma check_requirements_which:
  "which w' = which w \<Longrightarrow> check_requirements w' self fs = check_requirements w self fs"
  by (simp add: check_requirements_def)

text \<open>
  Claim C6, as amended. When \<^verbatim>\<open>receiver.jar\<close> is not a file, or one of the six
  executables is not found on the search path, \<^verbatim>\<open>run_instrumentation\<close> fails with the
  error of \<^verbatim>\<open>check_requirements\<close> and the state is untouched; the outcome is the same
  whatever the archives, the parser and the external tools would do, so nothing of the
  pipeline has run.
\<close>

theorem missing_requirement_reported_first:
  fixes w :: world and self :: instrumenter and s :: state
  assumes "\<not> isfile (files s) (receiver_path self) \<or> which w (JAVA_PATH self) = None \<or>
           which w (DEX2JAR_PATH self) = None \<or> which w (DX_PATH self) = None \<or>
           which w (ZIPALIGN_PATH self) = None \<or> which w (APKSIGNER_PATH self) = None \<or>
           which w (APKTOOL_PATH self) = None"
  shows "\<exists>m. \<forall>w' :: world. which w' = which w \<longrightarrow>
           run_instrumentation w' self s = (Inl (MissingRequirement m), s)"
proof -
  from check_requirements_fails[OF assms] obtain m where
    m: "check_requirements w self (files s) = Inl (MissingRequirement m)" by blast
  have "run_instrumentation w' self s = (Inl (MissingRequirement m), s)"
    if "which w' = which w" for w'
    using check_requirements_which[OF that, of self "files s"] m
    by (simp add: run_instrumentation_def)
  then show ?thesis by blast
qed

theorem missing_requirement_reported_first_witness:
  "(\<exists>m. run_instrumentation demo_world demo_self
          (demo_start\<lparr>files := demo_install(''/cosmo/lib/receiver.jar'' := None)\<rparr>) =
        (Inl (MissingRequirement m),
         demo_start\<lparr>files := demo_install(''/cosmo/lib/receiver.jar'' := None)\<rparr>)) \<and>
   (\<exists>m. run_instrumentation
          (demo_world\<lparr>which := (\<lambda>n. if n = ''zipalign'' then None else Some (''/usr/bin/'' @ n))\<rparr>)
          demo_self demo_start =
        (Inl (MissingRequirement m), demo_start))"
proof -
  have 1: "\<not> isfile (files (demo_start\<lparr>files := demo_install(''/cosmo/lib/receiver.jar'' := None)\<rparr>))
               (receiver_path demo_self) \<or>
           which demo_world (JAVA_PATH demo_self) = None \<or>
           which demo_world (DEX2JAR_PATH demo_self) = None \<or>
           which demo_world (DX_PATH demo_self) = None \<or>
           which demo_world (ZIPALIGN_PATH demo_self) = None \<or>
           which demo_world (APKSIGNER_PATH demo_self) = None \<or>
           which demo_world (APKTOOL_PATH demo_self) = None"
    by (simp add: isfile_def demo_self_def init_def path_join_def startswith_def endswith_def
        suffix_to_prefix)
  have 2: "\<not> isfile (files demo_start) (receiver_path demo_self) \<or>
           which (demo_world\<lparr>which := (\<lambda>n. if n = ''zipalign'' then None else Some (''/usr/bin/'' @ n))\<rparr>)
             (JAVA_PATH demo_self) = None \<or>
           which (demo_world\<lparr>which := (\<lambda>n. if n = ''zipalign'' then None else Some (''/usr/bin/'' @ n))\<rparr>)
             (DEX2JAR_PATH demo_self) = None \<or>
           which (demo_world\<lparr>which := (\<lambda>n. if n = ''zipalign'' then None else Some (''/usr/bin/'' @ n))\<rparr>)
             (DX_PATH demo_self) = None \<or>
           which (demo_world\<lparr>which := (\<lambda>n. if n = ''zipalign'' then None else Some (''/usr/bin/'' @ n))\<rparr>)
             (ZIPALIGN_PATH demo_self) = None \<or>
           which (demo_world\<lparr>which := (\<lambda>n. if n = ''zipalign'' then None else Some (''/usr/bin/'' @ n))\<rparr>)
             (APKSIGNER_PATH demo_self) = None \<or>
           which (demo_world\<lparr>which := (\<lambda>n. if n = ''zipalign'' then None else Some (''/usr/bin/'' @ n))\<rparr>)
             (APKTOOL_PATH demo_self) = None"
    by (simp add: demo_self_def init_def)
  from missing_requirement_reported_first[OF 1] missing_requirement_reported_first[OF 2]
  show ?thesis by blast
qed

text \<open>
  Claim C6 as stated fails for the properties template: \<^verbatim>\<open>check_requirements\<close> does not
  look for it. With every tool and \<^verbatim>\<open>receiver.jar\<close> in place and the template absent,
  the requirements pass, the stages run up to the creation of the dex directory, and the
  run fails in \<^verbatim>\<open>repackage_apk\<close>.
\<close>

theorem properties_template_unchecked_counterexample:
  "\<not> isfile (files demo_start) (jacoco_agent_properties_path demo_self) \<and>
   check_requirements demo_world demo_self (files demo_start) = Inr demo_resolved \<and>
   fst (run_instrumentation demo_world demo_self demo_start) =
     Inl (MissingAsset ''/cosmo/templates/jacoco-agent.properties'') \<and>
   files (snd (run_instrumentation demo_world demo_self demo_start)) ''/tmp/tmpcosmo/dex'' =
     Some (Dir [])"
proof -
  have 1: "\<not> isfile (files demo_start) (jacoco_agent_properties_path demo_self)"
    by (simp add: isfile_def demo_start_def demo_install_def demo_self_def init_def path_join_def
        startswith_def endswith_def suffix_to_prefix)
  have 2: "check_requirements demo_world demo_self (files demo_start) = Inr demo_resolved"
    by (simp add: demo_start_def demo_requirements)
  have 3: "parse_android_apk demo_world demo_resolved (files demo_start) = Inr True"
    by (simp add: demo_start_def demo_parse)
  have 4: "run_instrumentation demo_world demo_self demo_start =
      (Inl (MissingAsset ''/cosmo/templates/jacoco-agent.properties''),
       demo_prepared\<lparr>files := (files demo_prepared)(''/tmp/tmpcosmo/dex'' \<mapsto> Dir [])\<rparr>)"
    by (simp add: run_instrumentation_def 2 3 instrument_apk_def then_do_def demo_prepare
        demo_stages)
  show ?thesis using 1 2 by (simp add: 4)
qed

section \<open>Properties of the namespace tables\<close>

lemma registered_lookup:
  assumes "register_namespace ''android'' uri nm0 = Inr nm"
  shows "map_of nm uri = Some ''android''"
    and "map_of nm u = Some ''android'' \<Longrightarrow> u = uri"
proof -
  let ?xs = "filter (\<lambda>(k, v). \<not> (k = uri \<or> v = ''android'')) nm0"
  have nm: "nm = ?xs @ [(uri, ''android'')]" using assms by (simp add: android_not_reserved)
  have "map_of ?xs uri = None" by (auto simp: map_of_eq_None_iff)
  then show "map_of nm uri = Some ''android''" unfolding nm by (simp add: map_add_def)
  show "u = uri" if "map_of nm u = Some ''android''"
  proof (rule ccontr)
    assume "u \<noteq> uri"
    with that have "map_of ?xs u = Some ''android''"
      unfolding nm by (simp add: map_add_def split: option.splits)
    then have "(u, ''android'') \<in> set ?xs" by (rule map_of_SomeD)
    then show False by simp
  qed
qed

lemma add_qname_bound:
  assumes n1: "map_of nm ANDROID_NS = Some ''android''"
    and n2: "\<And>u. map_of nm u = Some ''android'' \<Longrightarrow> u = ANDROID_NS"
    and inv: "android_bound tb"
    and add: "add_qname nm q tb = Inr tb'"
  shows "android_bound tb' \<and> fst ` set (qnames tb') = insert q (fst ` set (qnames tb))"
proof (cases "take 1 q = ''{''")
  case False
  with add have tb': "tb' = tb\<lparr>qnames := qnames tb @ [(q, q)]\<rparr>"
    by (simp add: add_qname_def)
  from False have "qname_uri q = None" by (simp add: qname_uri_def)
  with inv tb' show ?thesis by (auto simp: android_bound_def)
next
  case True
  with add obtain uri local where sp: "rsplit_brace (drop 1 q) = Some (uri, local)"
    by (auto simp: add_qname_def split: option.splits)
  from True sp have qu: "qname_uri q = Some uri" by (simp add: qname_uri_def)
  show ?thesis
  proof (cases "map_of (namespaces tb) uri")
    case (Some pfx)
    with True sp add have tb': "tb' = tb\<lparr>qnames := qnames tb @
        [(q, if pfx \<noteq> [] then pfx @ '':'' @ local else local)]\<rparr>"
      by (simp add: add_qname_def)
    from Some have "(uri, pfx) \<in> set (namespaces tb)" by (rule map_of_SomeD)
    with inv have "(pfx = ''android'') = (uri = ANDROID_NS)" by (auto simp: android_bound_def)
    with Some have "uri = ANDROID_NS \<Longrightarrow> map_of (namespaces tb) ANDROID_NS = Some ''android''"
      by simp
    with inv tb' qu show ?thesis by (auto simp: android_bound_def)
  next
    case None
    define pfx where "pfx = (case map_of nm uri of Some p \<Rightarrow> p
                              | None \<Rightarrow> ''ns'' @ decimal (length (namespaces tb)))"
    from None True sp add have tb': "tb' = \<lparr> qnames = qnames tb @
          [(q, if pfx \<noteq> [] then pfx @ '':'' @ local else local)],
        namespaces = (if pfx \<noteq> ''xml'' then namespaces tb @ [(uri, pfx)] else namespaces tb) \<rparr>"
      unfolding pfx_def by (simp add: add_qname_def Let_def split del: if_split)
    have p: "(pfx = ''android'') = (uri = ANDROID_NS)"
      using n1 n2[of uri] by (auto simp: pfx_def split: option.splits)
    have q: "fst ` set (qnames tb') = insert q (fst ` set (qnames tb))"
      unfolding tb' by simp
    have i1: "\<forall>(u, p)\<in>set (namespaces tb'). (p = ''android'') = (u = ANDROID_NS)"
      using inv p unfolding tb' by (auto simp: android_bound_def)
    have i2: "map_of (namespaces tb') ANDROID_NS = Some ''android''"
      if "\<exists>q\<in>fst ` set (qnames tb'). qname_uri q = Some ANDROID_NS"
    proof (cases "uri = ANDROID_NS")
      case True
      with p have "pfx = ''android''" by simp
      with True None show ?thesis unfolding tb' by (simp add: map_add_def)
    next
      case False
      with that qu have "\<exists>q\<in>fst ` set (qnames tb). qname_uri q = Some ANDROID_NS"
        unfolding q by auto
      with inv have "map_of (namespaces tb) ANDROID_NS = Some ''android''"
        by (simp add: android_bound_def)
      then show ?thesis unfolding tb' by (simp add: map_add_def)
    qed
    from i1 i2 q show ?thesis by (simp add: android_bound_def)
  qed
qed

lemma visit_bound:
  assumes "map_of nm ANDROID_NS = Some ''android''"
    and "\<And>u. map_of nm u = Some ''android'' \<Longrightarrow> u = ANDROID_NS"
    and "android_bound tb"
    and "visit nm q tb = Inr tb'"
  shows "android_bound tb' \<and> fst ` set (qnames tb') = insert q (fst ` set (qnames tb))"
proof (cases "q \<in> fst ` set (qnames tb)")
  case True
  with assms(3,4) show ?thesis by (auto simp: visit_def)
next
  case False
  with assms(4) have "add_qname nm q tb = Inr tb'" by (simp add: visit_def)
  from add_qname_bound[OF assms(1,2,3) this] show ?thesis .
qed

lemma visit_keys_bound:
  assumes "map_of nm ANDROID_NS = Some ''android''"
    and "\<And>u. map_of nm u = Some ''android'' \<Longrightarrow> u = ANDROID_NS"
  shows "android_bound tb \<Longrightarrow> visit_keys nm ks tb = Inr tb' \<Longrightarrow>
    android_bound tb' \<and> fst ` set (qnames tb') = set ks \<union> fst ` set (qnames tb)"
proof (induction ks arbitrary: tb)
  case Nil
  then show ?case by simp
next
  case (Cons k ks)
  from Cons.prems(2) obtain tb1 where v: "visit nm k tb = Inr tb1"
    and r: "visit_keys nm ks tb1 = Inr tb'" by (auto split: sum.splits)
  from visit_bound[OF assms Cons.prems(1) v] have
    b1: "android_bound tb1" and q1: "fst ` set (qnames tb1) = insert k (fst ` set (qnames tb))"
    by auto
  from Cons.IH[OF b1 r] q1 show ?case by auto
qed

lemma collect_bound:
  shows "map_of nm ANDROID_NS = Some ''android'' \<Longrightarrow>
         \<forall>u. map_of nm u = Some ''android'' \<longrightarrow> u = ANDROID_NS \<Longrightarrow>
         android_bound tb \<Longrightarrow> collect nm e tb = Inr tb' \<Longrightarrow>
           android_bound tb' \<and> fst ` set (qnames tb') = set (names_of e) \<union> fst ` set (qnames tb)"
    and "map_of nm ANDROID_NS = Some ''android'' \<Longrightarrow>
         \<forall>u. map_of nm u = Some ''android'' \<longrightarrow> u = ANDROID_NS \<Longrightarrow>
         android_bound tb \<Longrightarrow> collect_all nm es tb = Inr tb' \<Longrightarrow>
           android_bound tb' \<and>
           fst ` set (qnames tb') = set (concat (map names_of es)) \<union> fst ` set (qnames tb)"
proof (induction nm e tb and nm es tb arbitrary: tb' and tb' rule: collect_collect_all.induct)
  case (1 nm t as cs tb)
  note n1 = "1.prems"(1)
  have n2: "\<And>u. map_of nm u = Some ''android'' \<Longrightarrow> u = ANDROID_NS"
    using "1.prems"(2) by blast
  from "1.prems"(4) obtain tb1 tb2 where v: "visit nm t tb = Inr tb1"
    and k: "visit_keys nm (map fst as) tb1 = Inr tb2"
    and c: "collect_all nm cs tb2 = Inr tb'"
    by (auto split: sum.splits)
  from visit_bound[OF n1 n2 "1.prems"(3) v] have
    b1: "android_bound tb1" and q1: "fst ` set (qnames tb1) = insert t (fst ` set (qnames tb))"
    by auto
  from visit_keys_bound[OF n1 n2 b1 k] have
    b2: "android_bound tb2"
    and q2: "fst ` set (qnames tb2) = set (map fst as) \<union> fst ` set (qnames tb1)"
    by auto
  from "1.IH"[OF v k n1 "1.prems"(2) b2 c] q1 q2 show ?case by auto
next
  case (2 nm tb)
  then show ?case by simp
next
  case (3 nm c cs tb)
  from "3.prems"(4) obtain tb1 where c1: "collect nm c tb = Inr tb1"
    and r: "collect_all nm cs tb1 = Inr tb'" by (auto split: sum.splits)
  from "3.IH"(1)[OF "3.prems"(1,2,3) c1] have
    b1: "android_bound tb1"
    and q1: "fst ` set (qnames tb1) = set (names_of c) \<union> fst ` set (qnames tb)" by auto
  from "3.IH"(2)[OF c1 "3.prems"(1,2) b1 r] q1 show ?case by auto
qed

lemma names_of_add_receiver: "set (names_of c) \<subseteq> set (names_of (add_receiver c))"
  by (cases c) (auto simp: add_receiver_eq)

lemma names_of_update_application:
  "set (concat (map names_of cs)) \<subseteq>
     set (concat (map names_of (update_application add_receiver cs)))"
  using names_of_add_receiver by (induction cs) auto

lemma names_of_patch_tree:
  assumes "patch_tree root = Inr root'"
  shows "set (names_of root) \<subseteq> set (names_of root')"
proof (cases root)
  case (Element t as cs)
  with assms have r: "root' = Element t as (update_application add_receiver cs)"
    by (auto simp: patch_tree_def split: option.splits)
  have "set (concat (map names_of cs)) \<subseteq>
     set (concat (map names_of (update_application add_receiver cs)))"
    by (rule names_of_update_application)
  then have "set (t # map fst as @ concat (map names_of cs)) \<subseteq>
     set (t # map fst as @ concat (map names_of (update_application add_receiver cs)))"
    unfolding set_append set_simps by blast
  then show ?thesis unfolding Element r names_of.simps .
qed

lemma android_bound_empty: "android_bound \<lparr> qnames = [], namespaces = [] \<rparr>"
  by (simp add: android_bound_def)

lemma namespaces_after_registration:
  assumes "register_namespace ''android'' ANDROID_NS nm0 = Inr nm"
    and "ET_namespaces nm e = Inr tb"
  shows "(\<forall>(u, pf)\<in>set (namespaces tb). (pf = ''android'') = (u = ANDROID_NS)) \<and>
         (uses_namespace ANDROID_NS e \<longrightarrow> (ANDROID_NS, ''android'') \<in> set (namespaces tb))"
proof -
  have n1: "map_of nm ANDROID_NS = Some ''android''"
    and n2: "\<forall>u. map_of nm u = Some ''android'' \<longrightarrow> u = ANDROID_NS"
    using registered_lookup[OF assms(1)] by blast+
  from collect_bound(1)[OF n1 n2 android_bound_empty assms(2)[unfolded ET_namespaces_def]]
  have b: "android_bound tb" and q: "fst ` set (qnames tb) = set (names_of e)" by auto
  have "(ANDROID_NS, ''android'') \<in> set (namespaces tb)" if "uses_namespace ANDROID_NS e"
  proof -
    from that obtain n where "n \<in> set (names_of e)" "qname_uri n = Some ANDROID_NS"
      by (auto simp: uses_namespace_def)
    with q have "\<exists>q\<in>fst ` set (qnames tb). qname_uri q = Some ANDROID_NS" by auto
    with b have "map_of (namespaces tb) ANDROID_NS = Some ''android''"
      by (simp add: android_bound_def)
    then show ?thesis by (rule map_of_SomeD)
  qed
  with b show ?thesis by (simp add: android_bound_def)
qed

subsection \<open>Two manifests\<close>

lemmas tables_defs = ET_namespaces_def visit_def add_qname_def rsplit_brace_def Let_def
  ANDROID_NS_def

lemma demo_registered:
  "register_namespace ''android'' ANDROID_NS well_known_namespaces =
     Inr (well_known_namespaces @ [(ANDROID_NS, ''android'')])"
  by (simp add: android_not_reserved well_known_namespaces_def ANDROID_NS_def)

lemma demo_parse_manifest:
  "ET_parse demo_world (files demo_decoded) ''/work/apktool/AndroidManifest.xml'' = Inr demo_manifest"
  by (simp add: ET_parse_def read_bytes_def demo_decoded_def demo_world_def)

lemma demo_parse_plain:
  "ET_parse demo_world (files demo_decoded_plain) ''/work/apktool/AndroidManifest.xml'' =
     Inr demo_manifest_plain"
  by (simp add: ET_parse_def read_bytes_def demo_decoded_plain_def demo_world_def)

lemma demo_patch_plain:
  "patch_tree demo_manifest_plain =
     Inr (Element ''manifest'' [(''package'', ''com.example'')]
           [Element ''application'' []
              [Element ''receiver''
                 [(''android:name'', ''cosmo.receiver.EndCoverageBroadcast''),
                  (''android:exported'', ''true'')]
                 [Element ''intent-filter'' []
                    [Element ''action'' [(''android:name'', ''intent.END_COVERAGE'')] []]]]])"
  by (simp add: patch_tree_def find_child_def demo_manifest_plain_def add_receiver_eq)

lemma demo_tables_plain:
  "ET_namespaces (well_known_namespaces @ [(ANDROID_NS, ''android'')])
     (Element ''manifest'' [(''package'', ''com.example'')]
           [Element ''application'' []
              [Element ''receiver''
                 [(''android:name'', ''cosmo.receiver.EndCoverageBroadcast''),
                  (''android:exported'', ''true'')]
                 [Element ''intent-filter'' []
                    [Element ''action'' [(''android:name'', ''intent.END_COVERAGE'')] []]]]]) =
   Inr \<lparr> qnames = [(''manifest'', ''manifest''), (''package'', ''package''),
                    (''application'', ''application''), (''receiver'', ''receiver''),
                    (''android:name'', ''android:name''),
                    (''android:exported'', ''android:exported''),
                    (''intent-filter'', ''intent-filter''), (''action'', ''action'')],
         namespaces = [] \<rparr>"
  by (simp add: ET_namespaces_def visit_def add_qname_def)

lemma demo_uses: "uses_namespace ANDROID_NS demo_manifest"
  by (simp add: uses_namespace_def demo_manifest_def qname_uri_def rsplit_brace_def ANDROID_NS_def)

lemma demo_uses_plain: "\<not> uses_namespace ANDROID_NS demo_manifest_plain"
  by (simp add: uses_namespace_def demo_manifest_plain_def qname_uri_def)

lemma demo_patch_ok:
  "fst (patch_manifest demo_world ''/work/apktool/AndroidManifest.xml'' demo_decoded) = Inr ()"
proof -
  obtain root' where p: "patch_tree demo_manifest = Inr root'"
    by (simp add: patch_tree_def find_child_def demo_manifest_def)
  have "\<exists>tb. ET_namespaces (well_known_namespaces @ [(ANDROID_NS, ''android'')]) root' = Inr tb"
    using p
    by (auto simp: patch_tree_def find_child_def demo_manifest_def add_receiver_eq
        well_known_namespaces_def tables_defs)
  then show ?thesis
    using p demo_parse_manifest
    by (auto simp: patch_manifest_def Let_def ET_write_def demo_decoded_def demo_registered)
qed

subsection \<open>The namespace prefix in the output\<close>

text \<open>
  What the registration of line 366 achieves. Take a manifest that parses, that uses the
  vendor namespace in at least one tag or attribute name, and on which
  \<^verbatim>\<open>patch_manifest\<close> succeeds. Then the namespace table handed to the emitter, whose
  entries are the declarations written on the root element, binds the vendor namespace
  to the prefix \<^verbatim>\<open>android\<close>; no other namespace has that prefix, and the vendor
  namespace has no other prefix, so none of the generated ones. The names of the
  document bring the declaration about, not the attributes the patch adds.
\<close>

lemma android_prefix_declared:
  assumes "ET_parse w (files s) p = Inr root"
    and "uses_namespace ANDROID_NS root"
    and "fst (patch_manifest w p s) = Inr ()"
  shows "\<exists>root' tb.
           patch_tree root = Inr root' \<and>
           ET_namespaces (namespace_map (snd (patch_manifest w p s))) root' = Inr tb \<and>
           files (snd (patch_manifest w p s)) p = Some (File (xml_emit w tb root')) \<and>
           (ANDROID_NS, ''android'') \<in> set (namespaces tb) \<and>
           (\<forall>(u, pf)\<in>set (namespaces tb). (pf = ''android'') = (u = ANDROID_NS))"
proof -
  obtain nm where nm: "register_namespace ''android'' ANDROID_NS (namespace_map s) = Inr nm"
    by (simp add: android_not_reserved)
  from assms(1,3) nm obtain root' where pt: "patch_tree root = Inr root'"
    by (cases "patch_tree root") (auto simp: patch_manifest_def Let_def)
  from assms(1,3) nm pt obtain tb where tb: "ET_namespaces nm root' = Inr tb"
    by (cases "ET_namespaces nm root'") (auto simp: patch_manifest_def Let_def ET_write_def)
  have res: "snd (patch_manifest w p s) =
      s\<lparr>namespace_map := nm, files := (files s)(p \<mapsto> File (xml_emit w tb root'))\<rparr>"
    using assms(1) nm pt tb by (simp add: patch_manifest_def Let_def ET_write_def)
  have "uses_namespace ANDROID_NS root'"
    using assms(2) names_of_patch_tree[OF pt] by (auto simp: uses_namespace_def)
  with namespaces_after_registration[OF nm tb] pt tb res show ?thesis by auto
qed

lemma android_prefix_declared_example:
  "ET_parse demo_world (files demo_decoded) ''/work/apktool/AndroidManifest.xml'' = Inr demo_manifest \<and>
   uses_namespace ANDROID_NS demo_manifest \<and>
   fst (patch_manifest demo_world ''/work/apktool/AndroidManifest.xml'' demo_decoded) = Inr () \<and>
   (\<exists>root' tb.
      patch_tree demo_manifest = Inr root' \<and>
      ET_namespaces
        (namespace_map (snd (patch_manifest demo_world ''/work/apktool/AndroidManifest.xml''
           demo_decoded))) root' = Inr tb \<and>
      (ANDROID_NS, ''android'') \<in> set (namespaces tb))"
proof -
  from android_prefix_declared[OF demo_parse_manifest demo_uses demo_patch_ok]
  show ?thesis using demo_parse_manifest demo_uses demo_patch_ok by blast
qed

text \<open>
  Claim C8. The code does not keep the binding on every manifest. Lines 370 to 374 set
  the attributes of the new elements under the plain strings \<^verbatim>\<open>android:name\<close> and
  \<^verbatim>\<open>android:exported\<close>, which are names in no namespace, so the registration of line
  366 does not reach them. On a manifest that declares the prefix and uses it in no name,
  such as \<^verbatim>\<open><manifest xmlns:android="..." package="com.example"><application/></manifest>\<close>,
  which the parser turns into the tree \<open>demo_manifest_plain\<close>, the patch succeeds, the
  table of namespaces of the patched tree is empty, and the file written holds the
  attributes \<^verbatim>\<open>android:name\<close> and \<^verbatim>\<open>android:exported\<close> under a root that declares no
  prefix at all: the binding of the document is lost.
\<close>

theorem unused_namespace_not_declared:
  "ET_parse demo_world (files demo_decoded_plain) ''/work/apktool/AndroidManifest.xml'' =
     Inr demo_manifest_plain \<and>
   patch_tree demo_manifest_plain =
     Inr (Element ''manifest'' [(''package'', ''com.example'')]
           [Element ''application'' []
              [Element ''receiver''
                 [(''android:name'', ''cosmo.receiver.EndCoverageBroadcast''),
                  (''android:exported'', ''true'')]
                 [Element ''intent-filter'' []
                    [Element ''action'' [(''android:name'', ''intent.END_COVERAGE'')] []]]]]) \<and>
   fst (patch_manifest demo_world ''/work/apktool/AndroidManifest.xml'' demo_decoded_plain) =
     Inr () \<and>
   ET_namespaces
     (namespace_map (snd (patch_manifest demo_world ''/work/apktool/AndroidManifest.xml''
        demo_decoded_plain)))
     (Element ''manifest'' [(''package'', ''com.example'')]
           [Element ''application'' []
              [Element ''receiver''
                 [(''android:name'', ''cosmo.receiver.EndCoverageBroadcast''),
                  (''android:exported'', ''true'')]
                 [Element ''intent-filter'' []
                    [Element ''action'' [(''android:name'', ''intent.END_COVERAGE'')] []]]]]) =
   Inr \<lparr> qnames = [(''manifest'', ''manifest''), (''package'', ''package''),
                    (''application'', ''application''), (''receiver'', ''receiver''),
                    (''android:name'', ''android:name''),
                    (''android:exported'', ''android:exported''),
                    (''intent-filter'', ''intent-filter''), (''action'', ''action'')],
         namespaces = [] \<rparr> \<and>
   files (snd (patch_manifest demo_world ''/work/apktool/AndroidManifest.xml''
        demo_decoded_plain)) ''/work/apktool/AndroidManifest.xml'' =
     Some (File (xml_emit demo_world
        \<lparr> qnames = [(''manifest'', ''manifest''), (''package'', ''package''),
                    (''application'', ''application''), (''receiver'', ''receiver''),
                    (''android:name'', ''android:name''),
                    (''android:exported'', ''android:exported''),
                    (''intent-filter'', ''intent-filter''), (''action'', ''action'')],
           namespaces = [] \<rparr>
        (Element ''manifest'' [(''package'', ''com.example'')]
           [Element ''application'' []
              [Element ''receiver''
                 [(''android:name'', ''cosmo.receiver.EndCoverageBroadcast''),
                  (''android:exported'', ''true'')]
                 [Element ''intent-filter'' []
                    [Element ''action'' [(''android:name'', ''intent.END_COVERAGE'')] []]]]])))"
proof -
  have r: "register_namespace ''android'' ANDROID_NS (namespace_map demo_decoded_plain) =
      Inr (well_known_namespaces @ [(ANDROID_NS, ''android'')])"
    by (simp add: demo_decoded_plain_def demo_registered)
  have p: "ET_parse demo_world
      (files (demo_decoded_plain\<lparr>namespace_map := well_known_namespaces @ [(ANDROID_NS, ''android'')]\<rparr>))
      ''/work/apktool/AndroidManifest.xml'' = Inr demo_manifest_plain"
    using demo_parse_plain by simp
  have m: "patch_manifest demo_world ''/work/apktool/AndroidManifest.xml'' demo_decoded_plain =
      (Inr (),
       demo_decoded_plain\<lparr>namespace_map := well_known_namespaces @ [(ANDROID_NS, ''android'')],
         files := (files demo_decoded_plain)(''/work/apktool/AndroidManifest.xml'' \<mapsto>
           File (xml_emit demo_world
             \<lparr> qnames = [(''manifest'', ''manifest''), (''package'', ''package''),
                    (''application'', ''application''), (''receiver'', ''receiver''),
                    (''android:name'', ''android:name''),
                    (''android:exported'', ''android:exported''),
                    (''intent-filter'', ''intent-filter''), (''action'', ''action'')],
               namespaces = [] \<rparr>
             (Element ''manifest'' [(''package'', ''com.example'')]
               [Element ''application'' []
                 [Element ''receiver''
                   [(''android:name'', ''cosmo.receiver.EndCoverageBroadcast''),
                    (''android:exported'', ''true'')]
                   [Element ''intent-filter'' []
                     [Element ''action'' [(''android:name'', ''intent.END_COVERAGE'')] []]]]])))\<rparr>)"
    unfolding patch_manifest_def r Let_def
    by (simp add: demo_parse_plain demo_patch_plain ET_write_def demo_tables_plain)
  show ?thesis
    unfolding m using demo_parse_plain demo_patch_plain demo_tables_plain by simp
qed

end
